theory Spec2Isabelle
  imports Main "HOL-Library.AList" "HOL-Library.Monad_Syntax" "HOL-Library.Multiset"
begin

section \<open>Shared data: roles and JavaScript helpers\<close>

text \<open>
  The repository holds two servers for the same four-player game:
  \<^verbatim>\<open>server.js\<close> (roles worth 900/800/400/600, the guess target alternates with the
  parity of the round, rounds are started by a \<^verbatim>\<open>shuffle\<close> event) and
  \<^verbatim>\<open>server/index.js\<close> (roles worth 1000/500/300/0, the target is always the Chor,
  rounds are started by timers). Definitions of the first keep the source's names;
  those of the second carry the suffix \<open>_ix\<close>.

  Both servers are single-threaded event handlers over global variables. A handler is
  modelled as a function from the state to \<open>state option\<close>: \<open>None\<close> is an uncaught
  \<^verbatim>\<open>TypeError\<close> (a property read or written on \<^verbatim>\<open>undefined\<close>), which ends the process.
\<close>

type_synonym sid = string

datatype role = Babu | Police | Chor | Dakat

fun role_name :: "role \<Rightarrow> string" where
  "role_name Babu = ''Babu''"
| "role_name Police = ''Police''"
| "role_name Chor = ''Chor''"
| "role_name Dakat = ''Dakat''"

text \<open>One row of a scoreboard: id, name, role, score.\<close>

type_synonym row = "sid \<times> string \<times> role option \<times> int"

datatype msg =
    UpdatePlayers "string list"
  | EnableShuffle
  | RolesAssigned nat "row list"
  | PoliceTurn role "(sid \<times> string) list"
  | RoundResult nat bool string "row list" role
  | GameOver "string list" "row list"
  | PlayerLeft string
  | GameReset

text \<open>\<^verbatim>\<open>io.to(id).emit(...)\<close> and \<^verbatim>\<open>io.emit(...)\<close>.\<close>

datatype emit = To sid msg | ToAll msg

text \<open>
  A JavaScript string is modelled by its UTF-8 encoding. \<^verbatim>\<open>String.prototype.trim\<close>
  removes the white space and the line terminators of ECMAScript from both ends:
  U+0009 to U+000D, U+0020, U+00A0, U+1680, U+2000 to U+200A, U+2028, U+2029, U+202F,
  U+205F, U+3000 and U+FEFF, listed here by their encodings.
\<close>

definition whiteSpace :: "string list" where
  "whiteSpace =
     [[CHR 0x09], [CHR 0x0A], [CHR 0x0B], [CHR 0x0C], [CHR 0x0D], [CHR 0x20],
      [CHR 0xC2, CHR 0xA0],
      [CHR 0xE1, CHR 0x9A, CHR 0x80],
      [CHR 0xE2, CHR 0x80, CHR 0x80], [CHR 0xE2, CHR 0x80, CHR 0x81],
      [CHR 0xE2, CHR 0x80, CHR 0x82], [CHR 0xE2, CHR 0x80, CHR 0x83],
      [CHR 0xE2, CHR 0x80, CHR 0x84], [CHR 0xE2, CHR 0x80, CHR 0x85],
      [CHR 0xE2, CHR 0x80, CHR 0x86], [CHR 0xE2, CHR 0x80, CHR 0x87],
      [CHR 0xE2, CHR 0x80, CHR 0x88], [CHR 0xE2, CHR 0x80, CHR 0x89],
      [CHR 0xE2, CHR 0x80, CHR 0x8A],
      [CHR 0xE2, CHR 0x80, CHR 0xA8], [CHR 0xE2, CHR 0x80, CHR 0xA9],
      [CHR 0xE2, CHR 0x80, CHR 0xAF],
      [CHR 0xE2, CHR 0x81, CHR 0x9F],
      [CHR 0xE3, CHR 0x80, CHR 0x80],
      [CHR 0xEF, CHR 0xBB, CHR 0xBF]]"

text \<open>\<open>dropAll ws xs\<close> removes from the front of \<open>xs\<close> every leading occurrence of a word of \<open>ws\<close>.\<close>

function dropAll :: "string list \<Rightarrow> string \<Rightarrow> string" where
  "dropAll ws xs =
     (case find (\<lambda>w. w \<noteq> [] \<and> take (length w) xs = w) ws of
        None \<Rightarrow> xs
      | Some w \<Rightarrow> dropAll ws (drop (length w) xs))"
  by pat_completeness auto
termination
proof (relation "measure (\<lambda>(ws, xs). length xs)")
  show "wf (measure (\<lambda>(ws, xs). length xs))" by simp
next
  fix ws :: "string list" and xs w :: string
  assume "find (\<lambda>w. w \<noteq> [] \<and> take (length w) xs = w) ws = Some w"
  then have w: "w \<noteq> []" and t: "take (length w) xs = w" by (auto simp: find_Some_iff)
  from t have "length (take (length w) xs) = length w" by (rule arg_cong)
  then have "min (length xs) (length w) = length w" by (simp only: length_take)
  then have "length w \<le> length xs" by linarith
  moreover have "0 < length w" using w by simp
  ultimately have "length xs - length w < length xs" by arith
  then show "((ws, drop (length w) xs), (ws, xs)) \<in> measure (\<lambda>(ws, xs). length xs)"
    by simp
qed

definition trim :: "string \<Rightarrow> string" where
  "trim xs = rev (dropAll (map rev whiteSpace) (rev (dropAll whiteSpace xs)))"

text \<open>\<^verbatim>\<open>xs[i]\<close>: \<open>None\<close> is \<^verbatim>\<open>undefined\<close>.\<close>

fun nth_opt :: "'a list \<Rightarrow> nat \<Rightarrow> 'a option" where
  "nth_opt [] n = None"
| "nth_opt (x # xs) 0 = Some x"
| "nth_opt (x # xs) (Suc n) = nth_opt xs n"

text \<open>\<^verbatim>\<open>forEach\<close>, \<^verbatim>\<open>map\<close>, \<^verbatim>\<open>filter\<close> and \<^verbatim>\<open>find\<close> with a callback that may throw.\<close>

fun forEach :: "'a list \<Rightarrow> ('a \<Rightarrow> 's \<Rightarrow> 's option) \<Rightarrow> 's \<Rightarrow> 's option" where
  "forEach [] f s = Some s"
| "forEach (x # xs) f s = (case f x s of None \<Rightarrow> None | Some s' \<Rightarrow> forEach xs f s')"

fun mapM :: "('a \<Rightarrow> 'b option) \<Rightarrow> 'a list \<Rightarrow> 'b list option" where
  "mapM f [] = Some []"
| "mapM f (x # xs) =
     (case f x of None \<Rightarrow> None
      | Some y \<Rightarrow> (case mapM f xs of None \<Rightarrow> None | Some ys \<Rightarrow> Some (y # ys)))"

fun filterM :: "('a \<Rightarrow> bool option) \<Rightarrow> 'a list \<Rightarrow> 'a list option" where
  "filterM P [] = Some []"
| "filterM P (x # xs) =
     (case P x of None \<Rightarrow> None
      | Some b \<Rightarrow> (case filterM P xs of None \<Rightarrow> None
                   | Some ys \<Rightarrow> Some (if b then x # ys else ys)))"

text \<open>The result \<open>Some None\<close> is \<^verbatim>\<open>undefined\<close>: nothing found.\<close>

fun findM :: "('a \<Rightarrow> bool option) \<Rightarrow> 'a list \<Rightarrow> 'a option option" where
  "findM P [] = Some None"
| "findM P (x # xs) =
     (case P x of None \<Rightarrow> None
      | Some b \<Rightarrow> (if b then Some (Some x) else findM P xs))"

text \<open>\<^verbatim>\<open>Math.max(...xs)\<close>: \<open>None\<close> is \<^verbatim>\<open>-Infinity\<close>.\<close>

fun max_list :: "int list \<Rightarrow> int option" where
  "max_list [] = None"
| "max_list (x # xs) = (case max_list xs of None \<Rightarrow> Some x | Some m \<Rightarrow> Some (max x m))"

section \<open>\<^verbatim>\<open>server.js\<close>: the parity variant\<close>

record player =
  name :: string
  score :: int
  role :: "role option"
  pending :: "int option"

text \<open>
  A history entry \<^verbatim>\<open>{ round, message, gains: [{ id, name, points }], correct }\<close>.
\<close>

record entry =
  round :: nat
  message :: string
  gains :: "(sid \<times> string \<times> int) list"
  correct :: bool

text \<open>
  The global variables of \<^verbatim>\<open>server.js\<close>. The registry \<^verbatim>\<open>players\<close> is an object keyed
  by socket id, here an association list in insertion order. \<open>outbox\<close> records what
  the handlers emit, oldest first. Of the payloads, \<^verbatim>\<open>maxRounds\<close> (a constant) and the
  copy of \<^verbatim>\<open>history\<close> (a field of the state) are left out. The role \<^verbatim>\<open>''\<close> of a player
  without a role is \<open>None\<close>.
\<close>

record state =
  players :: "(sid \<times> player) list"
  waiting :: "sid list"
  currentPlayers :: "sid list"
  gameStarted :: bool
  awaitingShuffle :: bool
  currentRound :: nat
  history :: "entry list"
  outbox :: "emit list"

definition MAX_ROUNDS :: nat where
  "MAX_ROUNDS = 10"

fun rolePoints :: "role \<Rightarrow> int" where
  "rolePoints Babu = 900"
| "rolePoints Police = 800"
| "rolePoints Chor = 400"
| "rolePoints Dakat = 600"

definition init :: state where
  "init = \<lparr>players = [], waiting = [], currentPlayers = [], gameStarted = False,
           awaitingShuffle = False, currentRound = 0, history = [], outbox = []\<rparr>"

text \<open>\<^verbatim>\<open>players[id]\<close>, and an assignment to fields of \<^verbatim>\<open>players[id]\<close>.\<close>

definition get :: "state \<Rightarrow> sid \<Rightarrow> player option" where
  "get s i = map_of (players s) i"

definition modify :: "sid \<Rightarrow> (player \<Rightarrow> player) \<Rightarrow> state \<Rightarrow> state option" where
  "modify i f s =
     (case get s i of None \<Rightarrow> None
      | Some p \<Rightarrow> Some (s\<lparr>players := AList.update i (f p) (players s)\<rparr>))"

definition emits :: "emit list \<Rightarrow> state \<Rightarrow> state" where
  "emits es s = s\<lparr>outbox := outbox s @ es\<rparr>"

text \<open>\<^verbatim>\<open>waiting.map(id => players[id].name).filter(Boolean)\<close>\<close>

definition waitingNames :: "state \<Rightarrow> string list option" where
  "waitingNames s =
     do { ns \<leftarrow> mapM (\<lambda>i. map_option name (get s i)) (waiting s);
          Some (filter (\<lambda>n. n \<noteq> []) ns) }"

definition scoreboard :: "state \<Rightarrow> row list option" where
  "scoreboard s =
     mapM (\<lambda>i. map_option (\<lambda>p. (i, name p, role p, score p)) (get s i)) (currentPlayers s)"

definition findRole :: "state \<Rightarrow> role \<Rightarrow> sid option option" where
  "findRole s r = findM (\<lambda>i. map_option (\<lambda>p. role p = Some r) (get s i)) (currentPlayers s)"

text \<open>
  \<^verbatim>\<open>assignRoles\<close>. The argument \<open>shuffled\<close> is the array that
  \<^verbatim>\<open>roles.sort(() => Math.random() - 0.5)\<close> returned: the outcome of the engine's sort
  under a random comparator is the environment's choice.
\<close>

definition assignRoles :: "role list \<Rightarrow> state \<Rightarrow> state option" where
  "assignRoles shuffled s =
     do { s1 \<leftarrow> forEach (enumerate 0 (currentPlayers s))
                  (\<lambda>(idx, i). modify i (\<lambda>p.
                     let r = nth_opt shuffled idx;
                         p1 = p\<lparr>role := r, pending := map_option rolePoints r\<rparr>
                     in if r = Some Babu then p1\<lparr>score := score p1 + rolePoints Babu\<rparr> else p1)) s;
          Some (s1\<lparr>awaitingShuffle := False\<rparr>) }"

definition guessTarget :: "state \<Rightarrow> role" where
  "guessTarget s = (if currentRound s mod 2 = 1 then Chor else Dakat)"

definition startRound :: "role list \<Rightarrow> state \<Rightarrow> state option" where
  "startRound shuffled s =
     do { s1 \<leftarrow> assignRoles shuffled (s\<lparr>currentRound := currentRound s + 1\<rparr>);
          let s2 = s1\<lparr>awaitingShuffle := True\<rparr>;
          sb \<leftarrow> scoreboard s2;
          let s3 = emits (map (\<lambda>i. To i (RolesAssigned (currentRound s2) sb)) (currentPlayers s2)) s2;
          pol \<leftarrow> findRole s3 Police;
          (case pol of
             None \<Rightarrow> Some s3
           | Some policeId \<Rightarrow>
               if policeId = [] then Some s3
               else do {
                 sus \<leftarrow> filterM (\<lambda>i. map_option (\<lambda>p. i \<noteq> policeId \<and> role p \<noteq> Some Babu) (get s3 i))
                          (currentPlayers s3);
                 suspects \<leftarrow> mapM (\<lambda>i. map_option (\<lambda>p. (i, name p)) (get s3 i)) sus;
                 Some (emits [To policeId (PoliceTurn (guessTarget s3) suspects)] s3) }) }"

text \<open>
  \<^verbatim>\<open>players[id].name\<close> for an id that \<^verbatim>\<open>find\<close> returned: reading a property of
  \<^verbatim>\<open>players[undefined]\<close> throws. (Socket ids are random 20-character strings; none is
  the string \<^verbatim>\<open>undefined\<close>.)
\<close>

definition nameOf :: "state \<Rightarrow> sid option \<Rightarrow> string option" where
  "nameOf s io = (case io of None \<Rightarrow> None | Some i \<Rightarrow> map_option name (get s i))"

text \<open>
  \<^verbatim>\<open>gains[id] += n\<close>. The table \<^verbatim>\<open>gains\<close> is read at the ids of \<^verbatim>\<open>currentPlayers\<close>
  only, where it was initialised with 0; an entry under the key \<^verbatim>\<open>undefined\<close> is
  never read.
\<close>

definition addGain :: "sid option \<Rightarrow> int \<Rightarrow> (sid \<Rightarrow> int) \<Rightarrow> (sid \<Rightarrow> int)" where
  "addGain io n g = (case io of None \<Rightarrow> g | Some i \<Rightarrow> g(i := g i + n))"

text \<open>
  \<^verbatim>\<open>resolveRound\<close> in three parts: the lookups at its head, the \<^verbatim>\<open>if\<close> that decides
  correctness, message and gains (\<open>judge\<close>), and what follows it (\<open>settle\<close>): the gains
  are added to the scores, the history entry is appended, the result is sent, and the
  game ends or the next shuffle is enabled.
\<close>

definition judge ::
  "sid \<Rightarrow> sid \<Rightarrow> sid option \<Rightarrow> sid option \<Rightarrow> (sid \<Rightarrow> int) \<Rightarrow> state
     \<Rightarrow> (bool \<times> string \<times> (sid \<Rightarrow> int)) option" where
  "judge policeId guessedId chorId dakatId g0 s =
     do { pn \<leftarrow> map_option name (get s policeId);
          if guessTarget s = Chor then
            (if Some guessedId = chorId then
               do { cn \<leftarrow> nameOf s chorId;
                    Some (True, pn @ '' guessed correctly: '' @ cn @ '' is the Chor.'',
                          addGain dakatId (rolePoints Dakat)
                            (addGain (Some policeId) (rolePoints Police) g0)) }
             else
               do { cn \<leftarrow> nameOf s chorId;
                    dn \<leftarrow> nameOf s dakatId;
                    Some (False, pn @ '' guessed incorrectly. '' @ cn @ '' was the Chor, and ''
                                 @ dn @ '' was the Dakat.'',
                          addGain chorId (rolePoints Chor)
                            (addGain dakatId (rolePoints Dakat) g0)) })
          else
            (if Some guessedId = dakatId then
               do { dn \<leftarrow> nameOf s dakatId;
                    Some (True, pn @ '' guessed correctly: '' @ dn @ '' is the Dakat.'',
                          addGain chorId (rolePoints Chor)
                            (addGain (Some policeId) (rolePoints Police) g0)) }
             else
               do { dn \<leftarrow> nameOf s dakatId;
                    cn \<leftarrow> nameOf s chorId;
                    Some (False, pn @ '' guessed incorrectly. '' @ dn @ '' was the Dakat, and ''
                                 @ cn @ '' was the Chor.'',
                          addGain chorId (rolePoints Chor)
                            (addGain dakatId (rolePoints Dakat) g0)) }) }"

definition settle ::
  "bool \<Rightarrow> string \<Rightarrow> (sid \<Rightarrow> int) \<Rightarrow> sid option \<Rightarrow> sid option \<Rightarrow> state \<Rightarrow> state option" where
  "settle ok msg g chorId dakatId s =
     do { s1 \<leftarrow> forEach (currentPlayers s)
                  (\<lambda>i. modify i (\<lambda>p. if role p \<noteq> Some Babu then p\<lparr>score := score p + g i\<rparr> else p)) s;
          gs \<leftarrow> mapM (\<lambda>i. map_option (\<lambda>p. (i, name p, g i)) (get s1 i)) (currentPlayers s1);
          let s2 = s1\<lparr>history := history s1 @
                     [\<lparr>round = currentRound s1, message = msg, gains = gs, correct = ok\<rparr>]\<rparr>;
          sb \<leftarrow> scoreboard s2;
          outs \<leftarrow> mapM (\<lambda>i. do { _ \<leftarrow> nameOf s2 chorId;
                                  _ \<leftarrow> nameOf s2 dakatId;
                                  Some (To i (RoundResult (currentRound s2) ok msg sb (guessTarget s2))) })
                    (currentPlayers s2);
          let s3 = emits outs s2;
          if currentRound s3 \<ge> MAX_ROUNDS then
            do { scores \<leftarrow> mapM (\<lambda>i. map_option score (get s3 i)) (currentPlayers s3);
                 let highest = max_list scores;
                 ws \<leftarrow> filterM (\<lambda>i. map_option (\<lambda>p. Some (score p) = highest) (get s3 i))
                         (currentPlayers s3);
                 winners \<leftarrow> mapM (\<lambda>i. map_option name (get s3 i)) ws;
                 Some ((emits (map (\<lambda>i. To i (GameOver winners sb)) (currentPlayers s3)) s3)
                         \<lparr>awaitingShuffle := False\<rparr>) }
          else
            Some (emits (map (\<lambda>i. To i EnableShuffle) (currentPlayers s3))
                    (s3\<lparr>awaitingShuffle := False\<rparr>)) }"

definition resolveRound :: "sid \<Rightarrow> sid \<Rightarrow> state \<Rightarrow> state option" where
  "resolveRound policeId guessedId s =
     do { chorId \<leftarrow> findRole s Chor;
          dakatId \<leftarrow> findRole s Dakat;
          babuId \<leftarrow> findRole s Babu;
          let g0 = (case babuId of None \<Rightarrow> (\<lambda>i. 0) | Some b \<Rightarrow> (\<lambda>i. 0)(b := rolePoints Babu));
          (ok, msg, g) \<leftarrow> judge policeId guessedId chorId dakatId g0 s;
          settle ok msg g chorId dakatId s }"

subsection \<open>The socket handlers of \<^verbatim>\<open>server.js\<close>\<close>

text \<open>
  The payload of a \<^verbatim>\<open>guess\<close> event is an object that may carry an \<^verbatim>\<open>id\<close> and a
  \<^verbatim>\<open>name\<close>. A field that is absent or not a string matches no player, as \<open>None\<close>
  does; a payload that is \<^verbatim>\<open>null\<close> or \<^verbatim>\<open>undefined\<close> is \<open>None\<close>.
\<close>

datatype guess_data = GuessData (data_id: "string option") (data_name: "string option")

datatype event =
    Connect sid
  | Join sid "string option"
  | Shuffle sid "role list"
  | Guess sid "guess_data option"
  | Disconnect sid
  | Restart sid

definition resetPlayer :: "player \<Rightarrow> player" where
  "resetPlayer p = p\<lparr>score := 0, role := None, pending := Some 0\<rparr>"

definition on_connection :: "sid \<Rightarrow> state \<Rightarrow> state option" where
  "on_connection i s =
     do { let s1 = s\<lparr>players := AList.update i
                       \<lparr>name = [], score = 0, role = None, pending = Some 0\<rparr> (players s),
                     waiting := waiting s @ [i]\<rparr>;
          ns \<leftarrow> waitingNames s1;
          Some (emits [ToAll (UpdatePlayers ns)] s1) }"

definition on_join :: "sid \<Rightarrow> string option \<Rightarrow> state \<Rightarrow> state option" where
  "on_join i nm s =
     (case nm of
        None \<Rightarrow> Some s
      | Some n \<Rightarrow>
          if n = [] then Some s
          else do {
            s1 \<leftarrow> modify i (\<lambda>p. p\<lparr>name := trim n\<rparr>) s;
            ns \<leftarrow> waitingNames s1;
            let s2 = emits [ToAll (UpdatePlayers ns)] s1;
            ready \<leftarrow> filterM (\<lambda>j. map_option (\<lambda>p. name p \<noteq> []) (get s2 j)) (waiting s2);
            if \<not> gameStarted s2 \<and> length ready \<ge> 4 then
              do { let cp = take 4 ready;
                   let s3 = s2\<lparr>currentPlayers := cp,
                               waiting := filter (\<lambda>j. j \<notin> set cp) (waiting s2),
                               gameStarted := True, currentRound := 0, history := [],
                               awaitingShuffle := False\<rparr>;
                   s4 \<leftarrow> forEach cp (\<lambda>j. modify j resetPlayer) s3;
                   Some (emits (map (\<lambda>j. To j EnableShuffle) cp) s4) }
            else Some s2 })"

definition on_shuffle :: "sid \<Rightarrow> role list \<Rightarrow> state \<Rightarrow> state option" where
  "on_shuffle i shuffled s =
     (if \<not> gameStarted s \<or> awaitingShuffle s \<or> i \<notin> set (currentPlayers s) then Some s
      else startRound shuffled s)"

text \<open>
  The target of a guess: \<^verbatim>\<open>data.id\<close> when it is one of \<^verbatim>\<open>currentPlayers\<close>, otherwise
  the first current player whose name is \<^verbatim>\<open>data.name\<close>. \<open>Some None\<close> is \<^verbatim>\<open>null\<close>.
\<close>

definition byName :: "guess_data \<Rightarrow> state \<Rightarrow> sid option option" where
  "byName d s =
     (case data_name d of
        None \<Rightarrow> Some None
      | Some n \<Rightarrow> if n = [] then Some None
                  else findM (\<lambda>j. map_option (\<lambda>q. name q = n) (get s j)) (currentPlayers s))"

definition findTarget :: "guess_data option \<Rightarrow> state \<Rightarrow> sid option option" where
  "findTarget data s =
     (case data of
        None \<Rightarrow> Some None
      | Some d \<Rightarrow>
          (case data_id d of
             Some t \<Rightarrow> if t \<noteq> [] \<and> t \<in> set (currentPlayers s) then Some (Some t) else byName d s
           | None \<Rightarrow> byName d s))"

definition on_guess :: "sid \<Rightarrow> guess_data option \<Rightarrow> state \<Rightarrow> state option" where
  "on_guess policeId data s =
     (if \<not> gameStarted s \<or> \<not> awaitingShuffle s then Some s
      else do {
        p \<leftarrow> get s policeId;
        if role p \<noteq> Some Police then Some s
        else do {
          targetId \<leftarrow> findTarget data s;
          (case targetId of
             None \<Rightarrow> Some s
           | Some t \<Rightarrow> if t = [] then Some s else resolveRound policeId t s) } })"

definition on_disconnect :: "sid \<Rightarrow> state \<Rightarrow> state option" where
  "on_disconnect i s =
     (if i \<in> set (waiting s) then
        do { let s1 = s\<lparr>waiting := filter (\<lambda>j. j \<noteq> i) (waiting s),
                        players := AList.delete i (players s)\<rparr>;
             ns \<leftarrow> waitingNames s1;
             Some (emits [ToAll (UpdatePlayers ns)] s1) }
      else if i \<in> set (currentPlayers s) then
        do { let cp = filter (\<lambda>j. j \<noteq> i) (currentPlayers s);
             let s1 = s\<lparr>currentPlayers := cp, history := [], currentRound := 0,
                         awaitingShuffle := False, gameStarted := False\<rparr>;
             s2 \<leftarrow> forEach cp (\<lambda>j. modify j resetPlayer) s1;
             let s3 = s2\<lparr>waiting := waiting s2 @ cp\<rparr>;
             p \<leftarrow> get s3 i;
             let s4 = emits [ToAll (PlayerLeft
                        ((if name p \<noteq> [] then name p else ''A player'') @ '' left. Game reset.''))] s3;
             ns \<leftarrow> waitingNames s4;
             let s5 = emits [ToAll (UpdatePlayers ns)] s4;
             Some (s5\<lparr>players := AList.delete i (players s5)\<rparr>) }
      else
        do { let s1 = s\<lparr>players := AList.delete i (players s)\<rparr>;
             ns \<leftarrow> waitingNames s1;
             Some (emits [ToAll (UpdatePlayers ns)] s1) })"

definition on_restart :: "sid \<Rightarrow> state \<Rightarrow> state option" where
  "on_restart i s =
     (if currentPlayers s = [] then Some s
      else do {
        let cp = currentPlayers s;
        let s1 = s\<lparr>waiting := waiting s @ cp\<rparr>;
        s2 \<leftarrow> forEach cp (\<lambda>j. modify j resetPlayer) s1;
        let s3 = s2\<lparr>currentPlayers := [], history := [], currentRound := 0,
                    awaitingShuffle := False, gameStarted := False\<rparr>;
        let s4 = emits [ToAll GameReset] s3;
        ns \<leftarrow> waitingNames s4;
        Some (emits [ToAll (UpdatePlayers ns)] s4) })"

fun step :: "event \<Rightarrow> state \<Rightarrow> state option" where
  "step (Connect i) s = on_connection i s"
| "step (Join i n) s = on_join i n s"
| "step (Shuffle i shuffled) s = on_shuffle i shuffled s"
| "step (Guess i d) s = on_guess i d s"
| "step (Disconnect i) s = on_disconnect i s"
| "step (Restart i) s = on_restart i s"

text \<open>The server handles the events one after the other; an uncaught error ends the run.\<close>

fun run :: "event list \<Rightarrow> state \<Rightarrow> state option" where
  "run [] s = Some s"
| "run (e # es) s = (case step e s of None \<Rightarrow> None | Some s' \<Rightarrow> run es s')"

section \<open>\<^verbatim>\<open>server/index.js\<close>: the simplest variant\<close>

text \<open>A player's name is \<^verbatim>\<open>null\<close> (\<open>None\<close>) until \<^verbatim>\<open>joinGame\<close> sets it.\<close>

record player_ix =
  name_ix :: "string option"
  score_ix :: int
  role_ix :: "role option"

type_synonym row_ix = "sid \<times> string option \<times> role option \<times> int"

datatype msg_ix =
    WaitingList "(sid \<times> string option) list"
  | RoleAssigned "role option" nat "(sid \<times> string option \<times> int) list"
  | RequestGuess "(sid \<times> string option) list"
  | RoundResult_ix string bool "row_ix list"
  | GameOver_ix "string option list" "row_ix list"
  | PlayerLeft_ix string
  | GameReset_ix

datatype emit_ix = To_ix sid msg_ix | ToAll_ix msg_ix

text \<open>
  The two callbacks handed to \<^verbatim>\<open>setTimeout\<close>: the start of the first round, one second
  after the game is formed, and the start of the next round, four seconds after a round
  is resolved.
\<close>

datatype timer = StartTimer | CooldownTimer

text \<open>
  The global variables of \<^verbatim>\<open>server/index.js\<close>, the timers that are scheduled and have
  not fired (\<open>timers\<close>, in the order they were scheduled), and what was emitted.
\<close>

record state_ix =
  players_ix :: "(sid \<times> player_ix) list"
  waitingQueue :: "sid list"
  gameInProgress :: bool
  currentRound_ix :: nat
  currentPlayers_ix :: "sid list"
  timers :: "timer list"
  outbox_ix :: "emit_ix list"

fun ROLE_POINTS :: "role \<Rightarrow> int" where
  "ROLE_POINTS Babu = 1000"
| "ROLE_POINTS Police = 500"
| "ROLE_POINTS Dakat = 300"
| "ROLE_POINTS Chor = 0"

definition init_ix :: state_ix where
  "init_ix = \<lparr>players_ix = [], waitingQueue = [], gameInProgress = False, currentRound_ix = 0,
              currentPlayers_ix = [], timers = [], outbox_ix = []\<rparr>"

definition get_ix :: "state_ix \<Rightarrow> sid \<Rightarrow> player_ix option" where
  "get_ix s i = map_of (players_ix s) i"

definition modify_ix :: "sid \<Rightarrow> (player_ix \<Rightarrow> player_ix) \<Rightarrow> state_ix \<Rightarrow> state_ix option" where
  "modify_ix i f s =
     (case get_ix s i of None \<Rightarrow> None
      | Some p \<Rightarrow> Some (s\<lparr>players_ix := AList.update i (f p) (players_ix s)\<rparr>))"

definition emits_ix :: "emit_ix list \<Rightarrow> state_ix \<Rightarrow> state_ix" where
  "emits_ix es s = s\<lparr>outbox_ix := outbox_ix s @ es\<rparr>"

text \<open>Template literals print \<^verbatim>\<open>null\<close> for a missing name or role.\<close>

definition show_name :: "string option \<Rightarrow> string" where
  "show_name n = (case n of None \<Rightarrow> ''null'' | Some x \<Rightarrow> x)"

definition show_role :: "role option \<Rightarrow> string" where
  "show_role r = (case r of None \<Rightarrow> ''null'' | Some x \<Rightarrow> role_name x)"

text \<open>
  \<^verbatim>\<open>assignRoles\<close>. \<open>shuffled\<close> is the array returned by
  \<^verbatim>\<open>roles.sort(() => 0.5 - Math.random())\<close>. \<^verbatim>\<open>currentPlayers\<close> is a
  \<^verbatim>\<open>slice(0, 4)\<close> or a filter of one, so \<^verbatim>\<open>shuffled[index]\<close> is a role; a roster
  longer than \<open>shuffled\<close> (where the source would add \<^verbatim>\<open>undefined\<close> to a score) is
  outside the model and gives \<open>None\<close>. The returned \<^verbatim>\<open>assignments\<close> object is not used
  by the caller.
\<close>

definition assignRoles_ix :: "role list \<Rightarrow> state_ix \<Rightarrow> state_ix option" where
  "assignRoles_ix shuffled s =
     forEach (enumerate 0 (currentPlayers_ix s))
       (\<lambda>(index, i) s'. case nth_opt shuffled index of
            None \<Rightarrow> None
          | Some r \<Rightarrow> modify_ix i (\<lambda>p. p\<lparr>role_ix := Some r,
                                          score_ix := score_ix p + ROLE_POINTS r\<rparr>) s') s"

definition resetGame :: "state_ix \<Rightarrow> state_ix" where
  "resetGame s =
     emits_ix [ToAll_ix GameReset_ix]
       (s\<lparr>gameInProgress := False, currentRound_ix := 0, currentPlayers_ix := [],
          waitingQueue := map fst (players_ix s),
          players_ix := map (\<lambda>(i, p). (i, p\<lparr>role_ix := None\<rparr>)) (players_ix s)\<rparr>)"

definition startRound_ix :: "role list \<Rightarrow> state_ix \<Rightarrow> state_ix option" where
  "startRound_ix shuffled s =
     do { s1 \<leftarrow> assignRoles_ix shuffled (s\<lparr>currentRound_ix := currentRound_ix s + 1\<rparr>);
          outs \<leftarrow> mapM (\<lambda>i. do {
                     player \<leftarrow> get_ix s1 i;
                     scoreBoard \<leftarrow> mapM (\<lambda>pid. map_option (\<lambda>p. (pid, name_ix p, score_ix p))
                                                   (get_ix s1 pid)) (currentPlayers_ix s1);
                     Some (To_ix i (RoleAssigned (role_ix player) (currentRound_ix s1) scoreBoard)) })
                   (currentPlayers_ix s1);
          let s2 = emits_ix outs s1;
          pol \<leftarrow> findM (\<lambda>i. map_option (\<lambda>p. role_ix p = Some Police) (get_ix s2 i))
                   (currentPlayers_ix s2);
          (case pol of
             None \<Rightarrow> Some s2
           | Some policeId \<Rightarrow>
               (case get_ix s2 policeId of
                  None \<Rightarrow> Some s2
                | Some police \<Rightarrow>
                    do { targets \<leftarrow> mapM (\<lambda>i. map_option (\<lambda>p. (i, name_ix p)) (get_ix s2 i))
                                      (filter (\<lambda>i. i \<noteq> policeId) (currentPlayers_ix s2));
                         Some (emits_ix [To_ix policeId (RequestGuess targets)] s2) })) }"

text \<open>
  \<^verbatim>\<open>handleGuess\<close> in two parts: the \<^verbatim>\<open>if\<close> that decides correctness and moves the
  points, and what follows it (\<open>announce\<close>): the result is sent, and the cooldown timer
  is scheduled or the game ends.
\<close>

definition announce :: "bool \<Rightarrow> string \<Rightarrow> state_ix \<Rightarrow> state_ix option" where
  "announce ok resultMessage s1 =
     do { scoreBoard \<leftarrow> mapM (\<lambda>pid. map_option (\<lambda>p. (pid, name_ix p, role_ix p, score_ix p))
                                        (get_ix s1 pid)) (currentPlayers_ix s1);
          let s2 = emits_ix (map (\<lambda>i. To_ix i (RoundResult_ix resultMessage ok scoreBoard))
                               (currentPlayers_ix s1)) s1;
          if currentRound_ix s2 < MAX_ROUNDS then
            Some (s2\<lparr>timers := timers s2 @ [CooldownTimer]\<rparr>)
          else
            do { let s3 = s2\<lparr>gameInProgress := False\<rparr>;
                 scores \<leftarrow> mapM (\<lambda>i. map_option score_ix (get_ix s3 i)) (currentPlayers_ix s3);
                 let highest = max_list scores;
                 winners \<leftarrow> filterM (\<lambda>i. map_option (\<lambda>p. Some (score_ix p) = highest)
                                             (get_ix s3 i)) (currentPlayers_ix s3);
                 winnerNames \<leftarrow> mapM (\<lambda>i. map_option name_ix (get_ix s3 i)) winners;
                 Some (resetGame
                         (emits_ix (map (\<lambda>i. To_ix i (GameOver_ix winnerNames scoreBoard))
                                      (currentPlayers_ix s3)) s3)) } }"

definition handleGuess :: "sid \<Rightarrow> sid \<Rightarrow> state_ix \<Rightarrow> state_ix option" where
  "handleGuess policeId guessedId s =
     (case (get_ix s guessedId, get_ix s policeId) of
        (Some guessedPlayer, Some policePlayer) \<Rightarrow>
          if role_ix guessedPlayer = Some Chor then
            announce True (show_name (name_ix policePlayer) @ '' correctly guessed that ''
                           @ show_name (name_ix guessedPlayer) @ '' is the Chor.'') s
          else
            do { let pointsToTransfer = ROLE_POINTS Police;
                 sa \<leftarrow> modify_ix policeId (\<lambda>p. p\<lparr>score_ix := score_ix p - pointsToTransfer\<rparr>) s;
                 sb \<leftarrow> modify_ix guessedId (\<lambda>p. p\<lparr>score_ix := score_ix p + pointsToTransfer\<rparr>) sa;
                 announce False (show_name (name_ix policePlayer) @ '' guessed incorrectly; ''
                                 @ show_name (name_ix guessedPlayer) @ '' was the ''
                                 @ show_role (role_ix guessedPlayer) @ ''.'') sb }
      | _ \<Rightarrow> Some s)"

text \<open>The callback of the cooldown timer.\<close>

definition cooldown :: "role list \<Rightarrow> state_ix \<Rightarrow> state_ix option" where
  "cooldown shuffled s =
     do { s1 \<leftarrow> forEach (currentPlayers_ix s) (\<lambda>i. modify_ix i (\<lambda>p. p\<lparr>role_ix := None\<rparr>)) s;
          startRound_ix shuffled s1 }"

subsection \<open>The socket handlers and timers of \<^verbatim>\<open>server/index.js\<close>\<close>

text \<open>
  \<open>Fire k shuffled\<close>: the \<open>k\<close>-th pending timer fires, and the round it starts draws
  the role order \<open>shuffled\<close>. The payload of \<^verbatim>\<open>joinGame\<close> and of \<^verbatim>\<open>guess\<close> is \<open>None\<close>
  when it is not a string.
\<close>

datatype event_ix =
    Connect_ix sid
  | JoinGame sid "string option"
  | Guess_ix sid "string option"
  | Disconnect_ix sid
  | Fire nat "role list"

definition on_connection_ix :: "sid \<Rightarrow> state_ix \<Rightarrow> state_ix option" where
  "on_connection_ix i s =
     Some (s\<lparr>players_ix := AList.update i \<lparr>name_ix = None, score_ix = 0, role_ix = None\<rparr>
                              (players_ix s),
             waitingQueue := waitingQueue s @ [i]\<rparr>)"

definition on_joinGame :: "sid \<Rightarrow> string option \<Rightarrow> state_ix \<Rightarrow> state_ix option" where
  "on_joinGame i nm s =
     (case nm of
        None \<Rightarrow> Some s
      | Some n \<Rightarrow>
          if trim n = [] then Some s
          else do {
            s1 \<leftarrow> modify_ix i (\<lambda>p. p\<lparr>name_ix := Some (trim n)\<rparr>) s;
            ps \<leftarrow> mapM (\<lambda>j. map_option (\<lambda>p. (j, name_ix p)) (get_ix s1 j)) (waitingQueue s1);
            let waitingNames = filter (\<lambda>(j, x). x \<noteq> None \<and> x \<noteq> Some []) ps;
            let s2 = emits_ix (map (\<lambda>(j, x). To_ix j (WaitingList waitingNames)) waitingNames) s1;
            if \<not> gameInProgress s2 then
              do { readyPlayers \<leftarrow> filterM (\<lambda>j. map_option
                                       (\<lambda>p. name_ix p \<noteq> None \<and> name_ix p \<noteq> Some []) (get_ix s2 j))
                                     (waitingQueue s2);
                   if length readyPlayers \<ge> 4 then
                     (let cp = take 4 readyPlayers in
                      Some (s2\<lparr>currentPlayers_ix := cp,
                               waitingQueue := filter (\<lambda>j. j \<notin> set cp) (waitingQueue s2),
                               gameInProgress := True, currentRound_ix := 0,
                               timers := timers s2 @ [StartTimer]\<rparr>))
                   else Some s2 }
            else Some s2 })"

definition on_guess_ix :: "sid \<Rightarrow> string option \<Rightarrow> state_ix \<Rightarrow> state_ix option" where
  "on_guess_ix policeId guessed s =
     (if \<not> gameInProgress s then Some s
      else (case get_ix s policeId of
              None \<Rightarrow> Some s
            | Some p \<Rightarrow>
                if role_ix p = Some Police then
                  (case guessed of
                     None \<Rightarrow> Some s
                   | Some guessedId \<Rightarrow>
                       if guessedId \<in> set (currentPlayers_ix s) then handleGuess policeId guessedId s
                       else Some s)
                else Some s))"

definition on_disconnect_ix :: "sid \<Rightarrow> state_ix \<Rightarrow> state_ix option" where
  "on_disconnect_ix i s =
     (let wasCurrent = (i \<in> set (currentPlayers_ix s));
          s1 = s\<lparr>players_ix := AList.delete i (players_ix s),
                 waitingQueue := filter (\<lambda>j. j \<noteq> i) (waitingQueue s),
                 currentPlayers_ix := filter (\<lambda>j. j \<noteq> i) (currentPlayers_ix s)\<rparr>
      in if wasCurrent then
           Some (resetGame
                   (emits_ix (map (\<lambda>j. To_ix j (PlayerLeft_ix
                                  ''A player left the game. The game has been reset.''))
                                (currentPlayers_ix s1)) s1))
         else Some s1)"

definition on_timer :: "nat \<Rightarrow> role list \<Rightarrow> state_ix \<Rightarrow> state_ix option" where
  "on_timer k shuffled s =
     (case nth_opt (timers s) k of
        None \<Rightarrow> Some s
      | Some t \<Rightarrow>
          (let s1 = s\<lparr>timers := take k (timers s) @ drop (Suc k) (timers s)\<rparr>
           in case t of
                StartTimer \<Rightarrow> startRound_ix shuffled s1
              | CooldownTimer \<Rightarrow> cooldown shuffled s1))"

fun step_ix :: "event_ix \<Rightarrow> state_ix \<Rightarrow> state_ix option" where
  "step_ix (Connect_ix i) s = on_connection_ix i s"
| "step_ix (JoinGame i n) s = on_joinGame i n s"
| "step_ix (Guess_ix i g) s = on_guess_ix i g s"
| "step_ix (Disconnect_ix i) s = on_disconnect_ix i s"
| "step_ix (Fire k shuffled) s = on_timer k shuffled s"

fun run_ix :: "event_ix list \<Rightarrow> state_ix \<Rightarrow> state_ix option" where
  "run_ix [] s = Some s"
| "run_ix (e # es) s = (case step_ix e s of None \<Rightarrow> None | Some s' \<Rightarrow> run_ix es s')"

section \<open>Observations and scenarios\<close>

definition roleOf :: "state \<Rightarrow> sid \<Rightarrow> role option" where
  "roleOf s i = (case get s i of None \<Rightarrow> None | Some p \<Rightarrow> role p)"

definition scoreOf :: "state \<Rightarrow> sid \<Rightarrow> int option" where
  "scoreOf s i = map_option score (get s i)"

definition roleOf_ix :: "state_ix \<Rightarrow> sid \<Rightarrow> role option" where
  "roleOf_ix s i = (case get_ix s i of None \<Rightarrow> None | Some p \<Rightarrow> role_ix p)"

definition scoreOf_ix :: "state_ix \<Rightarrow> sid \<Rightarrow> int option" where
  "scoreOf_ix s i = map_option score_ix (get_ix s i)"

definition scores :: "state \<Rightarrow> (sid \<times> int) list" where
  "scores s = map (\<lambda>(i, p). (i, score p)) (players s)"

definition roles :: "state \<Rightarrow> (sid \<times> role option) list" where
  "roles s = map (\<lambda>(i, p). (i, role p)) (players s)"

definition phase :: "state \<Rightarrow> bool \<times> bool \<times> nat \<times> sid list" where
  "phase s = (gameStarted s, awaitingShuffle s, currentRound s, currentPlayers s)"

definition scores_ix :: "state_ix \<Rightarrow> (sid \<times> int) list" where
  "scores_ix s = map (\<lambda>(i, p). (i, score_ix p)) (players_ix s)"

definition roles_ix :: "state_ix \<Rightarrow> (sid \<times> role option) list" where
  "roles_ix s = map (\<lambda>(i, p). (i, role_ix p)) (players_ix s)"

definition phase_ix :: "state_ix \<Rightarrow> bool \<times> nat \<times> sid list \<times> sid list \<times> timer list" where
  "phase_ix s =
     (gameInProgress s, currentRound_ix s, currentPlayers_ix s, waitingQueue s, timers s)"

text \<open>The messages of the round results in the outbox, oldest first.\<close>

fun resultMessages_ix :: "emit_ix list \<Rightarrow> (sid \<times> string) list" where
  "resultMessages_ix [] = []"
| "resultMessages_ix (To_ix i (RoundResult_ix m ok sb) # es) = (i, m) # resultMessages_ix es"
| "resultMessages_ix (e # es) = resultMessages_ix es"

text \<open>
  \<^verbatim>\<open>server/index.js\<close>: four clients connect and join as Ann, Bob, Cy and Di, the game is
  formed, and the start timer fires: round 1 with Ann the Babu, Bob the Police, Cy the
  Dakat and Di the Chor.
\<close>

definition round1_ix :: "event_ix list" where
  "round1_ix =
     [Connect_ix ''a'', Connect_ix ''b'', Connect_ix ''c'', Connect_ix ''d'',
      JoinGame ''a'' (Some ''Ann''), JoinGame ''b'' (Some ''Bob''),
      JoinGame ''c'' (Some ''Cy''), JoinGame ''d'' (Some ''Di''),
      Fire 0 [Babu, Police, Dakat, Chor]]"

text \<open>The same with a fifth client, Eve, who joins while the game runs and waits.\<close>

definition round1_eve_ix :: "event_ix list" where
  "round1_eve_ix =
     [Connect_ix ''a'', Connect_ix ''b'', Connect_ix ''c'', Connect_ix ''d'',
      JoinGame ''a'' (Some ''Ann''), JoinGame ''b'' (Some ''Bob''),
      JoinGame ''c'' (Some ''Cy''), JoinGame ''d'' (Some ''Di''),
      Connect_ix ''e'', JoinGame ''e'' (Some ''Eve''),
      Fire 0 [Babu, Police, Dakat, Chor]]"

text \<open>
  \<^verbatim>\<open>server.js\<close>: four clients connect and join; then rounds in which Ann shuffles, the
  roles fall as Babu, Police, Chor, Dakat on Ann, Bob, Cy, Di, and Bob guesses Cy.
\<close>

definition lobby :: "event list" where
  "lobby =
     [Connect ''a'', Connect ''b'', Connect ''c'', Connect ''d'',
      Join ''a'' (Some ''Ann''), Join ''b'' (Some ''Bob''),
      Join ''c'' (Some ''Cy''), Join ''d'' (Some ''Di'')]"

definition oneRound :: "event list" where
  "oneRound = [Shuffle ''a'' [Babu, Police, Chor, Dakat],
               Guess ''b'' (Some (GuessData (Some ''c'') None))]"

definition tenRounds :: "event list" where
  "tenRounds = lobby @ concat (replicate 10 oneRound)"

text \<open>The winners announced by the game-over notices in the outbox.\<close>

fun gameOvers :: "emit list \<Rightarrow> (sid \<times> string list) list" where
  "gameOvers [] = []"
| "gameOvers (To i (GameOver ws sb) # es) = (i, ws) # gameOvers es"
| "gameOvers (e # es) = gameOvers es"

definition announced :: "state \<Rightarrow> (sid \<times> string list) list" where
  "announced s = gameOvers (outbox s)"

definition summary :: "state \<Rightarrow> (bool \<times> bool \<times> nat \<times> sid list) \<times> (sid \<times> string list) list \<times> (sid \<times> int) list" where
  "summary s = (phase s, announced s, scores s)"

definition results_ix :: "state_ix \<Rightarrow> (sid \<times> string) list" where
  "results_ix s = resultMessages_ix (outbox_ix s)"

text \<open>
  What the engine's sort hands back: a rearrangement of the array of the four roles.
\<close>

definition is_shuffle :: "role list \<Rightarrow> bool" where
  "is_shuffle xs = (mset xs = mset [Babu, Police, Chor, Dakat])"

text \<open>A roster of four distinct participants, each in the registry.\<close>

definition roster :: "state \<Rightarrow> bool" where
  "roster s = (length (currentPlayers s) = 4 \<and> distinct (currentPlayers s)
               \<and> (\<forall>i\<in>set (currentPlayers s). get s i \<noteq> None))"

definition roster_ix :: "state_ix \<Rightarrow> bool" where
  "roster_ix s = (length (currentPlayers_ix s) = 4 \<and> distinct (currentPlayers_ix s)
                  \<and> (\<forall>i\<in>set (currentPlayers_ix s). get_ix s i \<noteq> None))"

text \<open>Every current participant, and every waiting one, is in the registry.\<close>

definition registered :: "state \<Rightarrow> bool" where
  "registered s = (\<forall>i\<in>set (currentPlayers s) \<union> set (waiting s). get s i \<noteq> None)"

definition registered_ix :: "state_ix \<Rightarrow> bool" where
  "registered_ix s = (\<forall>i\<in>set (currentPlayers_ix s). get_ix s i \<noteq> None)"

text \<open>The roles of a round are dealt: the four participants hold the four roles.\<close>

definition dealt :: "state \<Rightarrow> bool" where
  "dealt s = (mset (map (roleOf s) (currentPlayers s))
                = mset [Some Babu, Some Police, Some Chor, Some Dakat])"

text \<open>
  \<^verbatim>\<open>server.js\<close>: the game of Ann, Bob, Cy and Di before its first shuffle, and in its
  first round.
\<close>

definition table :: state where
  "table = \<lparr>players = [(''a'', \<lparr>name = ''Ann'', score = 0, role = None, pending = Some 0\<rparr>),
                        (''b'', \<lparr>name = ''Bob'', score = 0, role = None, pending = Some 0\<rparr>),
                        (''c'', \<lparr>name = ''Cy'', score = 0, role = None, pending = Some 0\<rparr>),
                        (''d'', \<lparr>name = ''Di'', score = 0, role = None, pending = Some 0\<rparr>)],
            waiting = [], currentPlayers = [''a'', ''b'', ''c'', ''d''], gameStarted = True,
            awaitingShuffle = False, currentRound = 0, history = [], outbox = []\<rparr>"

definition midRound :: state where
  "midRound =
     \<lparr>players = [(''a'', \<lparr>name = ''Ann'', score = 900, role = Some Babu, pending = Some 900\<rparr>),
                 (''b'', \<lparr>name = ''Bob'', score = 0, role = Some Police, pending = Some 800\<rparr>),
                 (''c'', \<lparr>name = ''Cy'', score = 0, role = Some Chor, pending = Some 400\<rparr>),
                 (''d'', \<lparr>name = ''Di'', score = 0, role = Some Dakat, pending = Some 600\<rparr>)],
      waiting = [], currentPlayers = [''a'', ''b'', ''c'', ''d''], gameStarted = True,
      awaitingShuffle = True, currentRound = 1, history = [], outbox = []\<rparr>"

text \<open>\<^verbatim>\<open>server/index.js\<close>: the same game before its start timer fires, and in round 1.\<close>

definition table_ix :: state_ix where
  "table_ix =
     \<lparr>players_ix = [(''a'', \<lparr>name_ix = Some ''Ann'', score_ix = 0, role_ix = None\<rparr>),
                    (''b'', \<lparr>name_ix = Some ''Bob'', score_ix = 0, role_ix = None\<rparr>),
                    (''c'', \<lparr>name_ix = Some ''Cy'', score_ix = 0, role_ix = None\<rparr>),
                    (''d'', \<lparr>name_ix = Some ''Di'', score_ix = 0, role_ix = None\<rparr>)],
      waitingQueue = [], gameInProgress = True, currentRound_ix = 0,
      currentPlayers_ix = [''a'', ''b'', ''c'', ''d''], timers = [StartTimer], outbox_ix = []\<rparr>"

definition midRound_ix :: state_ix where
  "midRound_ix =
     \<lparr>players_ix = [(''a'', \<lparr>name_ix = Some ''Ann'', score_ix = 1000, role_ix = Some Babu\<rparr>),
                    (''b'', \<lparr>name_ix = Some ''Bob'', score_ix = 500, role_ix = Some Police\<rparr>),
                    (''c'', \<lparr>name_ix = Some ''Cy'', score_ix = 300, role_ix = Some Dakat\<rparr>),
                    (''d'', \<lparr>name_ix = Some ''Di'', score_ix = 0, role_ix = Some Chor\<rparr>)],
      waitingQueue = [], gameInProgress = True, currentRound_ix = 1,
      currentPlayers_ix = [''a'', ''b'', ''c'', ''d''], timers = [], outbox_ix = []\<rparr>"

text \<open>
  Two conditions on the payload of a guess and the roster: the \<^verbatim>\<open>id\<close> \<open>i\<close> is absent,
  empty or of nobody in the game; the participant \<open>t\<close> is named \<open>n\<close> and nobody before
  \<open>t\<close> in the roster is.
\<close>

definition idMisses :: "string option \<Rightarrow> state \<Rightarrow> bool" where
  "idMisses i s = (case i of None \<Rightarrow> True | Some u \<Rightarrow> u = [] \<or> u \<notin> set (currentPlayers s))"

definition firstNamed :: "state \<Rightarrow> string \<Rightarrow> sid \<Rightarrow> bool" where
  "firstNamed s n t =
     (map_option name (get s t) = Some n
      \<and> (\<forall>j\<in>set (takeWhile (\<lambda>j. j \<noteq> t) (currentPlayers s)). map_option name (get s j) \<noteq> Some n))"

subsection \<open>The sort behind \<^verbatim>\<open>assignRoles\<close>\<close>

text \<open>
  \<^verbatim>\<open>Array.prototype.sort\<close> is the engine's. The README asks for Node.js 22.18 or later,
  whose engine, V8, sorts with TimSort. On an array of fewer than 64 elements the
  minimum run length is the length of the array, so that the sort is: find the run at the
  start of the array (\<^verbatim>\<open>CountAndMakeRun\<close>), then insert the other elements one by one
  by binary search (\<^verbatim>\<open>BinaryInsertionSort\<close>); nothing is merged. All the sort reads of
  a result of \<^verbatim>\<open>comparefn\<close> is whether it is negative, and the comparators of both
  servers ignore their arguments: the sort is driven by the list \<open>fs\<close> of the answers to
  ``is the result negative'' of the successive calls. \<open>None\<close>: the list ran out.

  \<open>extendRun desc n fs\<close>: with \<open>n\<close> elements left, by how many the run grows. The first
  call, \<^verbatim>\<open>comparefn(a[1], a[0])\<close>, decides whether the run is descending; the run goes
  on while \<^verbatim>\<open>comparefn(a[idx], a[idx - 1])\<close> is negative (descending) or not negative
  (ascending). The call that ends the run is made as well.
\<close>

fun extendRun :: "bool \<Rightarrow> nat \<Rightarrow> bool list \<Rightarrow> (nat \<times> bool list) option" where
  "extendRun desc 0 fs = Some (0, fs)"
| "extendRun desc (Suc n) [] = None"
| "extendRun desc (Suc n) (f # fs) =
     (if f = desc then
        (case extendRun desc n fs of None \<Rightarrow> None | Some (k, fs') \<Rightarrow> Some (Suc k, fs'))
      else Some (0, fs))"

text \<open>The length of the run, and the array with a descending run reversed in place.\<close>

definition countAndMakeRun :: "'a list \<Rightarrow> bool list \<Rightarrow> (nat \<times> 'a list \<times> bool list) option" where
  "countAndMakeRun xs fs =
     (case fs of
        [] \<Rightarrow> None
      | desc # fs1 \<Rightarrow>
          (case extendRun desc (length xs - 2) fs1 of
             None \<Rightarrow> None
           | Some (k, fs2) \<Rightarrow>
               Some (2 + k,
                     if desc then rev (take (2 + k) xs) @ drop (2 + k) xs else xs,
                     fs2)))"

text \<open>
  The binary search of \<^verbatim>\<open>BinaryInsertionSort\<close>: \<^verbatim>\<open>mid = left + ((right - left) >> 1)\<close>,
  and \<^verbatim>\<open>comparefn(pivot, a[mid]) < 0\<close> moves \<^verbatim>\<open>right\<close> to \<^verbatim>\<open>mid\<close>, anything else
  moves \<^verbatim>\<open>left\<close> to \<^verbatim>\<open>mid + 1\<close>.
\<close>

fun search :: "nat \<Rightarrow> nat \<Rightarrow> bool list \<Rightarrow> (nat \<times> bool list) option" where
  "search left right [] = (if left < right then None else Some (left, []))"
| "search left right (f # fs) =
     (if left < right then
        (let mid = left + (right - left) div 2
         in if f then search left mid fs else search (Suc mid) right fs)
      else Some (left, f # fs))"

text \<open>
  \<open>insertions m start xs fs\<close>: the \<open>m\<close> elements from index \<open>start\<close> on are inserted
  into the sorted part before them.
\<close>

fun insertions :: "nat \<Rightarrow> nat \<Rightarrow> 'a list \<Rightarrow> bool list \<Rightarrow> 'a list option" where
  "insertions 0 start xs fs = Some xs"
| "insertions (Suc m) start xs fs =
     (case search 0 start fs of
        None \<Rightarrow> None
      | Some (left, fs') \<Rightarrow>
          insertions m (Suc start)
            (take left xs @ [xs ! start] @ take (start - left) (drop left xs) @ drop (Suc start) xs)
            fs')"

text \<open>Arrays of 64 elements or more, where runs are merged, are outside this model.\<close>

definition timSort :: "'a list \<Rightarrow> bool list \<Rightarrow> 'a list option" where
  "timSort xs fs =
     (if length xs < 2 then Some xs
      else if 64 \<le> length xs then None
      else (case countAndMakeRun xs fs of
              None \<Rightarrow> None
            | Some (r, ys, fs') \<Rightarrow> insertions (length xs - r) r ys fs'))"

text \<open>
  The comparator of \<^verbatim>\<open>server.js\<close>, \<^verbatim>\<open>() => Math.random() - 0.5\<close>, where
  \<^verbatim>\<open>Math.random()\<close> is \<open>d / 2 ^ b\<close> for one of the equally likely \<open>d < 2 ^ b\<close>, scaled by
  \<open>2 ^ (b + 1)\<close>.
\<close>

definition comparator :: "nat \<Rightarrow> nat \<Rightarrow> int" where
  "comparator b d = 2 * int d - 2 ^ b"

text \<open>
  The role that \<^verbatim>\<open>assignRoles\<close> of \<^verbatim>\<open>server.js\<close> gives the participant \<open>i\<close> of the table
  of Ann, Bob, Cy and Di when the comparator calls answer \<open>fs\<close>.
\<close>

definition roleDealt :: "sid \<Rightarrow> bool list \<Rightarrow> role option" where
  "roleDealt i fs =
     (case timSort [Babu, Police, Chor, Dakat] fs of
        None \<Rightarrow> None
      | Some shuffled \<Rightarrow>
          (case assignRoles shuffled table of None \<Rightarrow> None | Some s \<Rightarrow> roleOf s i))"

definition holds :: "sid \<Rightarrow> role \<Rightarrow> bool list \<Rightarrow> bool" where
  "holds i r fs = (roleDealt i fs = Some r)"

text \<open>The answers of six comparator calls, and in how many of them \<open>i\<close> is dealt \<open>r\<close>.\<close>

definition sixCalls :: "bool list list" where
  "sixCalls = List.n_lists 6 [True, False]"

definition tally :: "sid \<Rightarrow> role \<Rightarrow> nat" where
  "tally i r = length (filter (holds i r) sixCalls)"

definition dealtTo :: "sid \<Rightarrow> nat list" where
  "dealtTo i = map (tally i) [Babu, Police, Chor, Dakat]"

section \<open>Scenarios on \<^verbatim>\<open>server/index.js\<close>\<close>

text \<open>
  C2. The round's point deltas are applied once; a further guess before the next
  round's roles are assigned changes no score. In \<^verbatim>\<open>server/index.js\<close> this fails:
  the \<^verbatim>\<open>guess\<close> handler asks only that a game is in progress and that the sender's role
  is Police, and the roles stay until the cooldown timer fires. Bob (Police) names Ann
  (Babu): 500 points move from Bob to Ann. Bob names Ann again during the cooldown:
  another 500 points move, and a second cooldown timer is scheduled.
\<close>

theorem guess_twice_ix:
  "map_option scores_ix (run_ix (round1_ix @ [Guess_ix ''b'' (Some ''a'')]) init_ix)
     = Some [(''a'', 1500), (''b'', 0), (''c'', 300), (''d'', 0)]
   \<and> map_option scores_ix
         (run_ix (round1_ix @ [Guess_ix ''b'' (Some ''a''), Guess_ix ''b'' (Some ''a'')]) init_ix)
     = Some [(''a'', 2000), (''b'', - 500), (''c'', 300), (''d'', 0)]
   \<and> map_option phase_ix
         (run_ix (round1_ix @ [Guess_ix ''b'' (Some ''a''), Guess_ix ''b'' (Some ''a'')]) init_ix)
     = Some (True, 1, [''a'', ''b'', ''c'', ''d''], [], [CooldownTimer, CooldownTimer])"
  by code_simp

text \<open>
  C8. A guess from a participant who is not the Police, or while no round awaits a
  guess, changes no score and no role. In \<^verbatim>\<open>server/index.js\<close> the second half fails
  during the cooldown: Bob (Police) names Di, the Chor, which resolves round 1 with no
  transfer; no round awaits a guess now, yet Bob's next guess, on Ann, is handled and
  moves 500 points from Bob to Ann.
\<close>

theorem guess_in_cooldown_ix:
  "map_option scores_ix (run_ix (round1_ix @ [Guess_ix ''b'' (Some ''d'')]) init_ix)
     = Some [(''a'', 1000), (''b'', 500), (''c'', 300), (''d'', 0)]
   \<and> map_option results_ix (run_ix (round1_ix @ [Guess_ix ''b'' (Some ''d'')]) init_ix)
     = Some [(''a'', ''Bob correctly guessed that Di is the Chor.''),
             (''b'', ''Bob correctly guessed that Di is the Chor.''),
             (''c'', ''Bob correctly guessed that Di is the Chor.''),
             (''d'', ''Bob correctly guessed that Di is the Chor.'')]
   \<and> map_option scores_ix
         (run_ix (round1_ix @ [Guess_ix ''b'' (Some ''d''), Guess_ix ''b'' (Some ''a'')]) init_ix)
     = Some [(''a'', 1500), (''b'', 0), (''c'', 300), (''d'', 0)]"
  by code_simp

text \<open>
  C3. A disconnect during the cooldown aborts the pending transition: the timer checks
  that the game is still valid before it starts a round. In \<^verbatim>\<open>server/index.js\<close> the
  callback checks nothing. Round 1 is resolved, Ann disconnects and the game is reset
  with the cooldown timer still pending. If it fires now, \<^verbatim>\<open>startRound\<close> runs on the
  empty roster and the round counter becomes 1 with no game in progress. If Eve sends
  \<^verbatim>\<open>joinGame\<close> first, a new game of Bob, Cy, Di and Eve is formed, and the stale timer
  of the old game starts its first round (roles and role points are handed out); the
  new game's own start timer then starts a second round with no guess in between.
\<close>

theorem stale_cooldown_ix:
  "map_option phase_ix
      (run_ix (round1_eve_ix @ [Guess_ix ''b'' (Some ''d''), Disconnect_ix ''a'']) init_ix)
     = Some (False, 0, [], [''b'', ''c'', ''d'', ''e''], [CooldownTimer])
   \<and> map_option phase_ix
      (run_ix (round1_eve_ix @ [Guess_ix ''b'' (Some ''d''), Disconnect_ix ''a'',
                                Fire 0 [Police, Babu, Chor, Dakat]]) init_ix)
     = Some (False, 1, [], [''b'', ''c'', ''d'', ''e''], [])
   \<and> map_option phase_ix
      (run_ix (round1_eve_ix @ [Guess_ix ''b'' (Some ''d''), Disconnect_ix ''a'',
                                JoinGame ''e'' (Some ''Eve'')]) init_ix)
     = Some (True, 0, [''b'', ''c'', ''d'', ''e''], [], [CooldownTimer, StartTimer])
   \<and> map_option phase_ix
      (run_ix (round1_eve_ix @ [Guess_ix ''b'' (Some ''d''), Disconnect_ix ''a'',
                                JoinGame ''e'' (Some ''Eve''),
                                Fire 0 [Police, Babu, Chor, Dakat]]) init_ix)
     = Some (True, 1, [''b'', ''c'', ''d'', ''e''], [], [StartTimer])
   \<and> map_option roles_ix
      (run_ix (round1_eve_ix @ [Guess_ix ''b'' (Some ''d''), Disconnect_ix ''a'',
                                JoinGame ''e'' (Some ''Eve''),
                                Fire 0 [Police, Babu, Chor, Dakat]]) init_ix)
     = Some [(''b'', Some Police), (''c'', Some Babu), (''d'', Some Chor), (''e'', Some Dakat)]
   \<and> map_option phase_ix
      (run_ix (round1_eve_ix @ [Guess_ix ''b'' (Some ''d''), Disconnect_ix ''a'',
                                JoinGame ''e'' (Some ''Eve''),
                                Fire 0 [Police, Babu, Chor, Dakat],
                                Fire 0 [Chor, Dakat, Babu, Police]]) init_ix)
     = Some (True, 2, [''b'', ''c'', ''d'', ''e''], [], [])"
  by code_simp

text \<open>
  C4, as stated: on an incorrect guess the guesser's points go to the participant who
  truly holds the target role, and the message reveals the true role-holders. It fails:
  Di is the Chor; Bob names Ann, the Babu. The 500 points go to Ann, Di's score stays 0,
  and the message names Ann's role only.
\<close>

theorem transfer_to_chor_counterexample:
  "map_option roles_ix (run_ix round1_ix init_ix)
     = Some [(''a'', Some Babu), (''b'', Some Police), (''c'', Some Dakat), (''d'', Some Chor)]
   \<and> map_option scores_ix (run_ix round1_ix init_ix)
     = Some [(''a'', 1000), (''b'', 500), (''c'', 300), (''d'', 0)]
   \<and> map_option scores_ix (run_ix (round1_ix @ [Guess_ix ''b'' (Some ''a'')]) init_ix)
     = Some [(''a'', 1500), (''b'', 0), (''c'', 300), (''d'', 0)]
   \<and> map_option results_ix (run_ix (round1_ix @ [Guess_ix ''b'' (Some ''a'')]) init_ix)
     = Some [(''a'', ''Bob guessed incorrectly; Ann was the Babu.''),
             (''b'', ''Bob guessed incorrectly; Ann was the Babu.''),
             (''c'', ''Bob guessed incorrectly; Ann was the Babu.''),
             (''d'', ''Bob guessed incorrectly; Ann was the Babu.'')]"
  by code_simp

text \<open>
  C6, as stated: after a disconnect in mid-game the three survivors are back in the
  waiting pool with score 0. In \<^verbatim>\<open>server/index.js\<close> \<^verbatim>\<open>resetGame\<close> clears the roles but
  keeps the scores: Di leaves during round 1, and Ann, Bob and Cy wait with 1000, 500
  and 300 points.
\<close>

theorem survivors_score_zero_counterexample:
  "map_option phase_ix (run_ix (round1_ix @ [Disconnect_ix ''d'']) init_ix)
     = Some (False, 0, [], [''a'', ''b'', ''c''], [])
   \<and> map_option roles_ix (run_ix (round1_ix @ [Disconnect_ix ''d'']) init_ix)
     = Some [(''a'', None), (''b'', None), (''c'', None)]
   \<and> map_option scores_ix (run_ix (round1_ix @ [Disconnect_ix ''d'']) init_ix)
     = Some [(''a'', 1000), (''b'', 500), (''c'', 300)]"
  by code_simp

section \<open>Scenarios on \<^verbatim>\<open>server.js\<close>\<close>

text \<open>
  C5. The round counter never exceeds ten: after the tenth round no start signal is
  accepted. In \<^verbatim>\<open>server.js\<close> the tenth \<^verbatim>\<open>resolveRound\<close> announces the winner and leaves
  \<^verbatim>\<open>gameStarted\<close> true and \<^verbatim>\<open>awaitingShuffle\<close> false, which is the state in which the
  \<^verbatim>\<open>shuffle\<close> handler starts a round: the next shuffle begins round 11 and grants the
  Babu's 900 points.
\<close>

theorem eleventh_round:
  "map_option summary (run tenRounds init)
     = Some ((True, False, 10, [''a'', ''b'', ''c'', ''d'']),
             [(''a'', [''Ann'']), (''b'', [''Ann'']), (''c'', [''Ann'']), (''d'', [''Ann''])],
             [(''a'', 9000), (''b'', 4000), (''c'', 2000), (''d'', 6000)])
   \<and> map_option summary (run (tenRounds @ [Shuffle ''c'' [Dakat, Chor, Police, Babu]]) init)
     = Some ((True, True, 11, [''a'', ''b'', ''c'', ''d'']),
             [(''a'', [''Ann'']), (''b'', [''Ann'']), (''c'', [''Ann'']), (''d'', [''Ann''])],
             [(''a'', 9000), (''b'', 4000), (''c'', 2000), (''d'', 6900)])"
  by code_simp

section \<open>Lemmas\<close>

lemma mapM_total: "\<forall>x\<in>set xs. f x \<noteq> None \<Longrightarrow> mapM f xs = Some (map (\<lambda>x. the (f x)) xs)"
  by (induction xs) auto

lemma filterM_total:
  "\<forall>x\<in>set xs. P x \<noteq> None \<Longrightarrow> filterM P xs = Some (filter (\<lambda>x. the (P x)) xs)"
  by (induction xs) auto

lemma findM_total:
  "\<forall>x\<in>set xs. P x \<noteq> None \<Longrightarrow> findM P xs = Some (find (\<lambda>x. the (P x)) xs)"
  by (induction xs) auto

lemma forEach_cong:
  "(\<And>x t. x \<in> set xs \<Longrightarrow> f x t = g x t) \<Longrightarrow> forEach xs f s = forEach xs g s"
  by (induction xs arbitrary: s) (auto split: option.splits)

lemma get_modify:
  "modify i f s = Some s' \<Longrightarrow> get s' j = (if j = i then map_option f (get s i) else get s j)"
  by (auto simp: modify_def get_def update_conv' split: option.splits)

lemma modify_frame:
  "modify i f s = Some s' \<Longrightarrow> s' = s\<lparr>players := players s'\<rparr>"
  by (auto simp: modify_def split: option.splits)

lemma modify_Some: "get s i \<noteq> None \<Longrightarrow> \<exists>s'. modify i f s = Some s'"
  by (auto simp: modify_def split: option.splits)

lemma forEach_modify:
  assumes "distinct (map k xs)" and "\<forall>x\<in>set xs. get s (k x) \<noteq> None"
  shows "\<exists>s'. forEach xs (\<lambda>x. modify (k x) (f x)) s = Some s'
           \<and> s' = s\<lparr>players := players s'\<rparr>
           \<and> (\<forall>x\<in>set xs. get s' (k x) = map_option (f x) (get s (k x)))
           \<and> (\<forall>j. j \<notin> k ` set xs \<longrightarrow> get s' j = get s j)"
  using assms
proof (induction xs arbitrary: s)
  case Nil
  then show ?case by simp
next
  case (Cons x xs)
  from Cons.prems obtain s1 where s1: "modify (k x) (f x) s = Some s1"
    using modify_Some by fastforce
  have g1: "\<And>j. get s1 j = (if j = k x then map_option (f x) (get s (k x)) else get s j)"
    using get_modify [OF s1] by simp
  have fr1: "s1 = s\<lparr>players := players s1\<rparr>" by (rule modify_frame [OF s1])
  have d: "distinct (map k xs)" and nx: "k x \<notin> k ` set xs" using Cons.prems(1) by auto
  have reg: "\<forall>y\<in>set xs. get s1 (k y) \<noteq> None"
    using Cons.prems(2) nx by (auto simp: g1)
  from Cons.IH [OF d reg] obtain s' where
    r: "forEach xs (\<lambda>x. modify (k x) (f x)) s1 = Some s'"
    and fr: "s' = s1\<lparr>players := players s'\<rparr>"
    and upd: "\<forall>y\<in>set xs. get s' (k y) = map_option (f y) (get s1 (k y))"
    and oth: "\<forall>j. j \<notin> k ` set xs \<longrightarrow> get s' j = get s1 j"
    by blast
  have "forEach (x # xs) (\<lambda>x. modify (k x) (f x)) s = Some s'" using s1 r by simp
  moreover have "s' = s\<lparr>players := players s'\<rparr>"
    by (subst fr, subst fr1) simp
  moreover have "\<forall>y\<in>set (x # xs). get s' (k y) = map_option (f y) (get s (k y))"
  proof
    fix y assume "y \<in> set (x # xs)"
    then consider "y = x" | "y \<in> set xs" by auto
    then show "get s' (k y) = map_option (f y) (get s (k y))"
    proof cases
      case 1
      then show ?thesis using oth nx g1 by simp
    next
      case 2
      then have "k y \<noteq> k x" using nx by (metis imageI)
      then show ?thesis using upd 2 g1 by simp
    qed
  qed
  moreover have "\<forall>j. j \<notin> k ` set (x # xs) \<longrightarrow> get s' j = get s j"
    using oth g1 by auto
  ultimately show ?case by blast
qed


lemma nth_opt_nth: "k < length xs \<Longrightarrow> nth_opt xs k = Some (xs ! k)"
proof (induction xs k rule: nth_opt.induct)
qed auto

lemma roles_univ: "set [Babu, Police, Chor, Dakat] = UNIV"
proof -
  have "r \<in> set [Babu, Police, Chor, Dakat]" for r by (cases r) auto
  then show ?thesis by blast
qed

lemma assignRoles_effect:
  assumes dist: "distinct (currentPlayers s)"
    and reg: "\<forall>i\<in>set (currentPlayers s). get s i \<noteq> None"
    and len: "length (currentPlayers s) \<le> length shuffled"
  shows "\<exists>s'. assignRoles shuffled s = Some s'
           \<and> s' = s\<lparr>players := players s', awaitingShuffle := False\<rparr>
           \<and> (\<forall>k<length (currentPlayers s). \<exists>p. get s (currentPlayers s ! k) = Some p
                 \<and> get s' (currentPlayers s ! k)
                     = Some (p\<lparr>role := Some (shuffled ! k),
                              pending := Some (rolePoints (shuffled ! k)),
                              score := score p + (if shuffled ! k = Babu then 900 else 0)\<rparr>))
           \<and> (\<forall>j. j \<notin> set (currentPlayers s) \<longrightarrow> get s' j = get s j)"
proof -
  let ?cps = "currentPlayers s"
  let ?G = "\<lambda>x p. let r = nth_opt shuffled (fst x);
                       p1 = p\<lparr>role := r, pending := map_option rolePoints r\<rparr>
                   in if r = Some Babu then p1\<lparr>score := score p1 + rolePoints Babu\<rparr> else p1"
  have d: "distinct (map snd (enumerate 0 ?cps))" using dist by simp
  have r: "\<forall>x\<in>set (enumerate 0 ?cps). get s (snd x) \<noteq> None"
    using reg by (auto simp: in_set_enumerate_eq)
  from forEach_modify [of snd "enumerate 0 ?cps" s ?G, OF d r] obtain s1 where
    run: "forEach (enumerate 0 ?cps) (\<lambda>x. modify (snd x) (?G x)) s = Some s1"
    and fr: "s1 = s\<lparr>players := players s1\<rparr>"
    and upd: "\<forall>x\<in>set (enumerate 0 ?cps). get s1 (snd x) = map_option (?G x) (get s (snd x))"
    and oth: "\<forall>j. j \<notin> snd ` set (enumerate 0 ?cps) \<longrightarrow> get s1 j = get s j"
    by blast
  let ?s' = "s1\<lparr>awaitingShuffle := False\<rparr>"
  have a: "assignRoles shuffled s = Some ?s'"
    using run by (simp add: assignRoles_def case_prod_beta')
  have b: "?s' = s\<lparr>players := players ?s', awaitingShuffle := False\<rparr>"
    by (subst fr) simp
  have g: "get ?s' j = get s1 j" for j by (simp add: get_def)
  have c: "\<exists>p. get s (?cps ! k) = Some p
             \<and> get ?s' (?cps ! k)
                 = Some (p\<lparr>role := Some (shuffled ! k),
                          pending := Some (rolePoints (shuffled ! k)),
                          score := score p + (if shuffled ! k = Babu then 900 else 0)\<rparr>)"
    if k: "k < length ?cps" for k
  proof -
    from k reg obtain p where p: "get s (?cps ! k) = Some p" by fastforce
    have mem: "(k, ?cps ! k) \<in> set (enumerate 0 ?cps)" using k by (simp add: in_set_enumerate_eq)
    have n: "nth_opt shuffled k = Some (shuffled ! k)" using k len by (simp add: nth_opt_nth)
    from upd mem have "get s1 (?cps ! k) = map_option (?G (k, ?cps ! k)) (get s (?cps ! k))"
      by fastforce
    then show ?thesis using p n by (simp add: g Let_def)
  qed
  have img: "snd ` set (enumerate 0 ?cps) = set ?cps"
    by (metis list.set_map map_snd_enumerate)
  have e: "get ?s' j = get s j" if "j \<notin> set ?cps" for j
    using that oth by (simp add: g img)
  show ?thesis using a b c e by blast
qed

lemma assignRoles_roles:
  assumes dist: "distinct (currentPlayers s)"
    and reg: "\<forall>i\<in>set (currentPlayers s). get s i \<noteq> None"
    and len: "length (currentPlayers s) = length shuffled"
    and a: "assignRoles shuffled s = Some s'"
  shows "map (roleOf s') (currentPlayers s) = map Some shuffled"
proof (rule nth_equalityI)
  show "length (map (roleOf s') (currentPlayers s)) = length (map Some shuffled)"
    using len by simp
next
  fix k assume "k < length (map (roleOf s') (currentPlayers s))"
  then have k: "k < length (currentPlayers s)" by simp
  from assignRoles_effect [OF dist reg, of shuffled] len a k
  have "\<exists>p. get s' (currentPlayers s ! k) = Some (p\<lparr>role := Some (shuffled ! k),
                              pending := Some (rolePoints (shuffled ! k)),
                              score := score p + (if shuffled ! k = Babu then 900 else 0)\<rparr>)"
    by fastforce
  then show "map (roleOf s') (currentPlayers s) ! k = map Some shuffled ! k"
    using k len by (auto simp: roleOf_def)
qed

lemma bij_from_lists:
  assumes "map f xs = map Some ys" and "mset ys = mset [Babu, Police, Chor, Dakat]"
  shows "bij_betw f (set xs) (Some ` UNIV)"
proof -
  have dy: "distinct ys" using assms(2) by (metis distinct.simps(2) distinct_singleton empty_set list.simps(15) mset_eq_imp_distinct_iff role.distinct insert_iff empty_iff)
  have sy: "set ys = UNIV" using assms(2) roles_univ by (metis mset_eq_setD)
  have "distinct (map f xs)" using assms(1) dy by (simp add: distinct_map)
  then have "inj_on f (set xs)" by (simp add: distinct_map)
  moreover have "f ` set xs = Some ` UNIV"
    using assms(1) sy by (metis list.set_map)
  ultimately show ?thesis by (simp add: bij_betw_def)
qed


lemma get_frame [simp]:
  "get (s\<lparr>history := h\<rparr>) = get s"
  "get (s\<lparr>awaitingShuffle := b\<rparr>) = get s"
  "get (s\<lparr>currentRound := n\<rparr>) = get s"
  "get (s\<lparr>outbox := ob\<rparr>) = get s"
  "get (emits es s) = get s"
  by (simp_all add: get_def emits_def fun_eq_iff)

lemma mapM_get:
  "\<forall>i\<in>set xs. get s i \<noteq> None
   \<Longrightarrow> mapM (\<lambda>i. map_option (h i) (get s i)) xs = Some (map (\<lambda>i. h i (the (get s i))) xs)"
  by (induction xs) auto

lemma filterM_get:
  "\<forall>i\<in>set xs. get s i \<noteq> None
   \<Longrightarrow> filterM (\<lambda>i. map_option (h i) (get s i)) xs = Some (filter (\<lambda>i. h i (the (get s i))) xs)"
  by (induction xs) auto

lemma findM_get:
  "\<forall>i\<in>set xs. get s i \<noteq> None
   \<Longrightarrow> findM (\<lambda>i. map_option (h i) (get s i)) xs = Some (find (\<lambda>i. h i (the (get s i))) xs)"
  by (induction xs) auto

lemma mapM_const: "mapM (\<lambda>i. Some (h i)) xs = Some (map h xs)"
  by (induction xs) auto

lemma settle_effect:
  assumes dist: "distinct (currentPlayers s)"
    and reg: "\<forall>i\<in>set (currentPlayers s). get s i \<noteq> None"
    and c: "c \<in> set (currentPlayers s)" and d: "d \<in> set (currentPlayers s)"
  shows "\<exists>s'. settle ok msg g (Some c) (Some d) s = Some s'
           \<and> (\<forall>i\<in>set (currentPlayers s). \<exists>p. get s i = Some p
                 \<and> get s' i = Some (if role p \<noteq> Some Babu then p\<lparr>score := score p + g i\<rparr> else p))
           \<and> (\<forall>j. j \<notin> set (currentPlayers s) \<longrightarrow> get s' j = get s j)
           \<and> currentPlayers s' = currentPlayers s \<and> awaitingShuffle s' = False
           \<and> gameStarted s' = gameStarted s \<and> currentRound s' = currentRound s
           \<and> waiting s' = waiting s
           \<and> history s' = history s @
                [\<lparr>round = currentRound s, message = msg,
                  gains = map (\<lambda>i. (i, name (the (get s i)), g i)) (currentPlayers s),
                  correct = ok\<rparr>]"
proof -
  let ?cps = "currentPlayers s"
  let ?F = "\<lambda>i p. if role p \<noteq> Some Babu then p\<lparr>score := score p + g i\<rparr> else p"
  have d': "distinct (map (\<lambda>x. x) ?cps)" using dist by simp
  from forEach_modify [of "\<lambda>x. x" ?cps s ?F, OF d'] reg obtain s1 where
    run: "forEach ?cps (\<lambda>i. modify i (?F i)) s = Some s1"
    and fr: "s1 = s\<lparr>players := players s1\<rparr>"
    and upd: "\<forall>i\<in>set ?cps. get s1 i = map_option (?F i) (get s i)"
    and oth: "\<forall>j. j \<notin> set ?cps \<longrightarrow> get s1 j = get s j"
    by auto
  have fields: "currentPlayers s1 = ?cps" "history s1 = history s" "currentRound s1 = currentRound s"
    "gameStarted s1 = gameStarted s" "waiting s1 = waiting s" "outbox s1 = outbox s"
    by (subst fr, simp)+
  have reg1: "\<forall>i\<in>set ?cps. get s1 i \<noteq> None" using upd reg by auto
  have nm: "name (the (get s1 i)) = name (the (get s i))" if "i \<in> set ?cps" for i
    using upd reg that by fastforce
  have c1: "get s1 c \<noteq> None" and d1: "get s1 d \<noteq> None" using reg1 c d by auto
  have sub: "\<forall>i\<in>set (filter P ?cps). get s1 i \<noteq> None" for P using reg1 by auto
  have gs: "map (\<lambda>i. (i, name (the (get s1 i)), g i)) ?cps
              = map (\<lambda>i. (i, name (the (get s i)), g i)) ?cps"
    using nm by simp
  have "\<exists>s'. settle ok msg g (Some c) (Some d) s = Some s'
          \<and> get s' = get s1 \<and> currentPlayers s' = ?cps \<and> awaitingShuffle s' = False
          \<and> gameStarted s' = gameStarted s \<and> currentRound s' = currentRound s
          \<and> waiting s' = waiting s
          \<and> history s' = history s @
                [\<lparr>round = currentRound s, message = msg,
                  gains = map (\<lambda>i. (i, name (the (get s i)), g i)) ?cps,
                  correct = ok\<rparr>]"
    using c1 d1
    by (auto simp: settle_def run fields scoreboard_def mapM_get [OF reg1] mapM_get [OF sub]
        filterM_get [OF reg1] nameOf_def mapM_const Let_def emits_def gs)
  then obtain s' where r: "settle ok msg g (Some c) (Some d) s = Some s'"
    and g': "get s' = get s1" and rest: "currentPlayers s' = ?cps" "awaitingShuffle s' = False"
      "gameStarted s' = gameStarted s" "currentRound s' = currentRound s" "waiting s' = waiting s"
      "history s' = history s @
                [\<lparr>round = currentRound s, message = msg,
                  gains = map (\<lambda>i. (i, name (the (get s i)), g i)) ?cps,
                  correct = ok\<rparr>]"
    by blast
  have "\<forall>i\<in>set ?cps. \<exists>p. get s i = Some p \<and> get s' i = Some (?F i p)"
    using upd reg g' by fastforce
  moreover have "\<forall>j. j \<notin> set ?cps \<longrightarrow> get s' j = get s j" using oth g' by simp
  ultimately show ?thesis using r rest by blast
qed


lemma dealt_inj: "dealt s \<Longrightarrow> inj_on (roleOf s) (set (currentPlayers s))"
proof -
  assume "dealt s"
  then have "mset (map (roleOf s) (currentPlayers s))
               = mset [Some Babu, Some Police, Some Chor, Some Dakat]"
    by (simp add: dealt_def)
  moreover have "distinct [Some Babu, Some Police, Some Chor, Some Dakat]" by simp
  ultimately have "distinct (map (roleOf s) (currentPlayers s))"
    by (metis mset_eq_imp_distinct_iff)
  then show ?thesis by (simp add: distinct_map)
qed

lemma dealt_holder: "dealt s \<Longrightarrow> \<exists>i\<in>set (currentPlayers s). roleOf s i = Some r"
proof -
  assume "dealt s"
  then have "set (map (roleOf s) (currentPlayers s))
               = set [Some Babu, Some Police, Some Chor, Some Dakat]"
    unfolding dealt_def by (rule mset_eq_setD)
  moreover have "Some r \<in> set [Some Babu, Some Police, Some Chor, Some Dakat]"
    by (cases r) auto
  ultimately have "Some r \<in> roleOf s ` set (currentPlayers s)" by simp
  then show ?thesis by force
qed

lemma findRole_holder:
  assumes reg: "\<forall>i\<in>set (currentPlayers s). get s i \<noteq> None"
    and inj: "inj_on (roleOf s) (set (currentPlayers s))"
    and i: "i \<in> set (currentPlayers s)" and r: "roleOf s i = Some r"
  shows "findRole s r = Some (Some i)"
proof -
  let ?P = "\<lambda>j. role (the (get s j)) = Some r"
  have eq: "findRole s r = Some (find ?P (currentPlayers s))"
    unfolding findRole_def by (rule findM_get [OF reg])
  have same: "?P j \<longleftrightarrow> roleOf s j = Some r" if "j \<in> set (currentPlayers s)" for j
    using reg that by (auto simp: roleOf_def)
  have "?P i" using same i r by simp
  then obtain j where j: "find ?P (currentPlayers s) = Some j"
    using i by (cases "find ?P (currentPlayers s)") (auto simp: find_None_iff)
  then have "j \<in> set (currentPlayers s)" and "?P j"
    by (auto simp: find_Some_iff)
  then have "roleOf s j = roleOf s i" using same r by simp
  then have "j = i" using inj i \<open>j \<in> set (currentPlayers s)\<close> by (auto dest: inj_onD)
  then show ?thesis using eq j by simp
qed

lemma resolveRound_effect:
  assumes ro: "roster s" and de: "dealt s" and pol: "roleOf s p = Some Police"
  shows "\<exists>s' b c d g.
           b \<in> set (currentPlayers s) \<and> c \<in> set (currentPlayers s) \<and> d \<in> set (currentPlayers s)
         \<and> roleOf s b = Some Babu \<and> roleOf s c = Some Chor \<and> roleOf s d = Some Dakat
         \<and> resolveRound p t s = Some s'
         \<and> g b = 900
         \<and> (t \<noteq> (if guessTarget s = Chor then c else d)
              \<longrightarrow> g c = 400 \<and> g d = 600 \<and> (\<forall>i. i \<noteq> b \<and> i \<noteq> c \<and> i \<noteq> d \<longrightarrow> g i = 0))
         \<and> (\<forall>i\<in>set (currentPlayers s). \<exists>q. get s i = Some q
                 \<and> get s' i = Some (if role q \<noteq> Some Babu then q\<lparr>score := score q + g i\<rparr> else q))
         \<and> (\<forall>j. j \<notin> set (currentPlayers s) \<longrightarrow> get s' j = get s j)
         \<and> currentPlayers s' = currentPlayers s \<and> awaitingShuffle s' = False
         \<and> gameStarted s' = gameStarted s \<and> currentRound s' = currentRound s
         \<and> waiting s' = waiting s
         \<and> (\<exists>msg. history s' = history s @
                [\<lparr>round = currentRound s, message = msg,
                  gains = map (\<lambda>i. (i, name (the (get s i)), g i)) (currentPlayers s),
                  correct = (t = (if guessTarget s = Chor then c else d))\<rparr>])"
proof -
  let ?cps = "currentPlayers s"
  have dist: "distinct ?cps" and reg: "\<forall>i\<in>set ?cps. get s i \<noteq> None"
    using ro by (auto simp: roster_def)
  have inj: "inj_on (roleOf s) (set ?cps)" by (rule dealt_inj [OF de])
  from dealt_holder [OF de] obtain b c d where
    b: "b \<in> set ?cps" "roleOf s b = Some Babu" and
    c: "c \<in> set ?cps" "roleOf s c = Some Chor" and
    d: "d \<in> set ?cps" "roleOf s d = Some Dakat"
    by metis
  have fb: "findRole s Babu = Some (Some b)" by (rule findRole_holder [OF reg inj b])
  have fc: "findRole s Chor = Some (Some c)" by (rule findRole_holder [OF reg inj c])
  have fd: "findRole s Dakat = Some (Some d)" by (rule findRole_holder [OF reg inj d])
  have ne: "b \<noteq> c" "b \<noteq> d" "c \<noteq> d" "p \<noteq> b" "p \<noteq> c" "p \<noteq> d"
    using b c d pol by auto
  from pol obtain pp where pp: "get s p = Some pp" by (auto simp: roleOf_def split: option.splits)
  from reg c obtain pc where pc: "get s c = Some pc" by auto
  from reg d obtain pd where pd: "get s d = Some pd" by auto
  let ?g0 = "(\<lambda>i. 0::int)(b := rolePoints Babu)"
  let ?ok = "t = (if guessTarget s = Chor then c else d)"
  have "\<exists>msg g. judge p t (Some c) (Some d) ?g0 s = Some (?ok, msg, g) \<and> g b = 900
          \<and> (\<not> ?ok \<longrightarrow> g c = 400 \<and> g d = 600 \<and> (\<forall>i. i \<noteq> b \<and> i \<noteq> c \<and> i \<noteq> d \<longrightarrow> g i = 0))"
    using ne by (auto simp: judge_def pp pc pd nameOf_def addGain_def)
  then obtain msg g where j: "judge p t (Some c) (Some d) ?g0 s = Some (?ok, msg, g)"
    and gb: "g b = 900"
    and gw: "\<not> ?ok \<longrightarrow> g c = 400 \<and> g d = 600 \<and> (\<forall>i. i \<noteq> b \<and> i \<noteq> c \<and> i \<noteq> d \<longrightarrow> g i = 0)"
    by blast
  from settle_effect [OF dist reg c(1) d(1), of ?ok msg g] obtain s' where
    st: "settle ?ok msg g (Some c) (Some d) s = Some s'"
    and eff: "\<forall>i\<in>set ?cps. \<exists>q. get s i = Some q
                 \<and> get s' i = Some (if role q \<noteq> Some Babu then q\<lparr>score := score q + g i\<rparr> else q)"
      "\<forall>j. j \<notin> set ?cps \<longrightarrow> get s' j = get s j"
      "currentPlayers s' = ?cps" "awaitingShuffle s' = False"
      "gameStarted s' = gameStarted s" "currentRound s' = currentRound s" "waiting s' = waiting s"
      "history s' = history s @
                [\<lparr>round = currentRound s, message = msg,
                  gains = map (\<lambda>i. (i, name (the (get s i)), g i)) ?cps,
                  correct = ?ok\<rparr>]"
    by blast
  have rr: "resolveRound p t s = Some s'"
    using j st by (simp add: resolveRound_def fb fc fd)
  show ?thesis
    using b c d rr gb gw eff by blast
qed


lemma is_shuffle_length: "is_shuffle xs \<Longrightarrow> length xs = 4"
  unfolding is_shuffle_def by (drule mset_eq_length) simp

lemma startRound_effect:
  assumes ro: "roster s" and sh: "is_shuffle shuffled"
  shows "\<exists>s'. startRound shuffled s = Some s' \<and> roster s' \<and> dealt s'
           \<and> currentPlayers s' = currentPlayers s \<and> awaitingShuffle s'
           \<and> gameStarted s' = gameStarted s \<and> currentRound s' = currentRound s + 1
           \<and> history s' = history s \<and> waiting s' = waiting s
           \<and> map (roleOf s') (currentPlayers s) = map Some shuffled
           \<and> (\<forall>k<4. scoreOf s' (currentPlayers s ! k)
                       = map_option (\<lambda>x. x + (if shuffled ! k = Babu then 900 else 0))
                           (scoreOf s (currentPlayers s ! k)))
           \<and> (\<forall>j. j \<notin> set (currentPlayers s) \<longrightarrow> get s' j = get s j)"
proof -
  let ?cps = "currentPlayers s"
  let ?s0 = "s\<lparr>currentRound := currentRound s + 1\<rparr>"
  have len: "length ?cps = 4" and dist: "distinct ?cps"
    and reg: "\<forall>i\<in>set ?cps. get s i \<noteq> None"
    using ro by (auto simp: roster_def)
  have l4: "length shuffled = 4" by (rule is_shuffle_length [OF sh])
  have dist0: "distinct (currentPlayers ?s0)" using dist by simp
  have reg0: "\<forall>i\<in>set (currentPlayers ?s0). get ?s0 i \<noteq> None" using reg by simp
  have len0: "length (currentPlayers ?s0) \<le> length shuffled" using len l4 by simp
  from assignRoles_effect [OF dist0 reg0 len0] obtain s1 where
    a: "assignRoles shuffled ?s0 = Some s1"
    and fr: "s1 = ?s0\<lparr>players := players s1, awaitingShuffle := False\<rparr>"
    and upd: "\<forall>k<length ?cps. \<exists>p. get s (?cps ! k) = Some p
                 \<and> get s1 (?cps ! k)
                     = Some (p\<lparr>role := Some (shuffled ! k),
                              pending := Some (rolePoints (shuffled ! k)),
                              score := score p + (if shuffled ! k = Babu then 900 else 0)\<rparr>)"
    and oth: "\<forall>j. j \<notin> set ?cps \<longrightarrow> get s1 j = get s j"
    by auto
  have fields: "currentPlayers s1 = ?cps" "history s1 = history s"
    "currentRound s1 = currentRound s + 1" "gameStarted s1 = gameStarted s"
    "waiting s1 = waiting s"
    by (subst fr, simp)+
  have reg1: "\<forall>i\<in>set ?cps. get s1 i \<noteq> None"
  proof
    fix i assume "i \<in> set ?cps"
    then obtain k where "k < length ?cps" "i = ?cps ! k" by (auto simp: in_set_conv_nth)
    then show "get s1 i \<noteq> None" using upd by fastforce
  qed
  have sub: "\<forall>i\<in>set (filter P ?cps). get s1 i \<noteq> None" for P using reg1 by auto
  have roles1: "map (roleOf s1) ?cps = map Some shuffled"
    using assignRoles_roles [OF dist0 reg0 _ a] len l4 by simp
  have "\<exists>s'. startRound shuffled s = Some s' \<and> get s' = get s1 \<and> currentPlayers s' = ?cps
          \<and> awaitingShuffle s' \<and> gameStarted s' = gameStarted s
          \<and> currentRound s' = currentRound s + 1 \<and> history s' = history s
          \<and> waiting s' = waiting s"
    using a
    by (auto simp: startRound_def fields scoreboard_def findRole_def Let_def emits_def
        mapM_get [OF reg1] findM_get [OF reg1] filterM_get [OF reg1] mapM_get [OF sub]
        split: option.splits)
  then obtain s' where r: "startRound shuffled s = Some s'" and g: "get s' = get s1"
    and rest: "currentPlayers s' = ?cps" "awaitingShuffle s'" "gameStarted s' = gameStarted s"
      "currentRound s' = currentRound s + 1" "history s' = history s" "waiting s' = waiting s"
    by blast
  have ro': "roster s'" using len dist reg1 g rest(1) by (simp add: roster_def)
  have rl: "roleOf s' = roleOf s1" using g by (simp add: roleOf_def fun_eq_iff)
  have roles': "map (roleOf s') ?cps = map Some shuffled" using roles1 rl by simp
  have de': "dealt s'"
    using roles' sh rest(1) unfolding dealt_def is_shuffle_def
    by (metis (no_types, lifting) list.simps(8,9) mset_map)
  have sc: "\<forall>k<4. scoreOf s' (?cps ! k)
                       = map_option (\<lambda>x. x + (if shuffled ! k = Babu then 900 else 0))
                           (scoreOf s (?cps ! k))"
  proof (intro allI impI)
    fix k :: nat assume "k < 4"
    then have "k < length ?cps" using len by simp
    with upd obtain p where "get s (?cps ! k) = Some p"
      "get s1 (?cps ! k) = Some (p\<lparr>role := Some (shuffled ! k),
                              pending := Some (rolePoints (shuffled ! k)),
                              score := score p + (if shuffled ! k = Babu then 900 else 0)\<rparr>)"
      by blast
    then show "scoreOf s' (?cps ! k)
                 = map_option (\<lambda>x. x + (if shuffled ! k = Babu then 900 else 0))
                     (scoreOf s (?cps ! k))"
      by (simp add: scoreOf_def g)
  qed
  show ?thesis using r ro' de' rest roles' sc oth g by auto
qed


lemma same_holder:
  "inj_on f A \<Longrightarrow> x \<in> A \<Longrightarrow> y \<in> A \<Longrightarrow> f x = v \<Longrightarrow> f y = v \<Longrightarrow> x = y"
  by (auto dest: inj_onD)

lemma is_shuffle_props: "is_shuffle xs \<Longrightarrow> distinct xs \<and> set xs = UNIV \<and> length xs = 4"
proof -
  assume a: "is_shuffle xs"
  have "distinct [Babu, Police, Chor, Dakat]" by simp
  then have "distinct xs" using a unfolding is_shuffle_def by (metis mset_eq_imp_distinct_iff)
  moreover have "set xs = UNIV" using a roles_univ unfolding is_shuffle_def by (metis mset_eq_setD)
  ultimately show ?thesis using is_shuffle_length [OF a] by simp
qed

text \<open>
  C9. In \<^verbatim>\<open>server.js\<close> the Babu's 900 points are added to the cumulative score once per
  round. \<^verbatim>\<open>startRound\<close> succeeds on a roster of four and adds 900 to the score of the
  participant who becomes Babu and nothing to the others; while the round awaits its
  guess, every further shuffle is ignored; and whatever the Police guesses,
  \<^verbatim>\<open>resolveRound\<close> leaves the Babu's score as it is, although the gains recorded in the
  history entry list 900 points for the Babu.
\<close>

theorem babu_granted_once:
  assumes ro: "roster s" and sh: "is_shuffle shuffled"
  shows "\<exists>s1 b. startRound shuffled s = Some s1 \<and> b \<in> set (currentPlayers s)
           \<and> roleOf s1 b = Some Babu
           \<and> scoreOf s1 b = map_option (\<lambda>x. x + rolePoints Babu) (scoreOf s b)
           \<and> (\<forall>i\<in>set (currentPlayers s). i \<noteq> b \<longrightarrow> scoreOf s1 i = scoreOf s i)
           \<and> (\<forall>j sh. on_shuffle j sh s1 = Some s1)
           \<and> (\<forall>p t. roleOf s1 p = Some Police \<longrightarrow>
                 (\<exists>s2. resolveRound p t s1 = Some s2 \<and> scoreOf s2 b = scoreOf s1 b
                       \<and> (\<exists>n. (b, n, rolePoints Babu) \<in> set (gains (last (history s2))))))"
proof -
  let ?cps = "currentPlayers s"
  have len: "length ?cps = 4" and dist: "distinct ?cps" using ro by (auto simp: roster_def)
  from startRound_effect [OF ro sh] obtain s1 where
    r: "startRound shuffled s = Some s1" and ro1: "roster s1" and de1: "dealt s1"
    and cp1: "currentPlayers s1 = ?cps" and aw: "awaitingShuffle s1"
    and roles1: "map (roleOf s1) ?cps = map Some shuffled"
    and sc: "\<forall>k<4. scoreOf s1 (?cps ! k)
                = map_option (\<lambda>x. x + (if shuffled ! k = Babu then 900 else 0)) (scoreOf s (?cps ! k))"
    by blast
  from is_shuffle_props [OF sh] have dsh: "distinct shuffled" and ush: "set shuffled = UNIV"
    and l4: "length shuffled = 4" by auto
  from ush obtain k where k: "k < 4" "shuffled ! k = Babu"
    using l4 by (metis UNIV_I in_set_conv_nth)
  let ?b = "?cps ! k"
  have bm: "?b \<in> set ?cps" using k len by simp
  have rk: "roleOf s1 (?cps ! j) = Some (shuffled ! j)" if "j < 4" for j
    using roles1 that len l4 by (metis length_map nth_map)
  have rb: "roleOf s1 ?b = Some Babu" using rk k by simp
  have sb: "scoreOf s1 ?b = map_option (\<lambda>x. x + rolePoints Babu) (scoreOf s ?b)"
    using sc k by simp
  have others: "\<forall>i\<in>set ?cps. i \<noteq> ?b \<longrightarrow> scoreOf s1 i = scoreOf s i"
  proof (intro ballI impI)
    fix i assume "i \<in> set ?cps" "i \<noteq> ?b"
    then obtain j where j: "j < 4" "i = ?cps ! j" using len by (metis in_set_conv_nth)
    then have "j \<noteq> k" using \<open>i \<noteq> ?b\<close> by auto
    then have "shuffled ! j \<noteq> Babu" using dsh k j l4 by (metis nth_eq_iff_index_eq)
    then show "scoreOf s1 i = scoreOf s i" using sc j by (simp add: option.map_ident)
  qed
  have blocked: "\<forall>j sh. on_shuffle j sh s1 = Some s1" using aw by (simp add: on_shuffle_def)
  have res: "\<exists>s2. resolveRound p t s1 = Some s2 \<and> scoreOf s2 ?b = scoreOf s1 ?b
                 \<and> (\<exists>n. (?b, n, rolePoints Babu) \<in> set (gains (last (history s2))))"
    if pol: "roleOf s1 p = Some Police" for p t
  proof -
    from resolveRound_effect [OF ro1 de1 pol, of t] obtain s2 b g msg where
      b: "b \<in> set (currentPlayers s1)" "roleOf s1 b = Some Babu"
      and rr: "resolveRound p t s1 = Some s2" and gb: "g b = 900"
      and eff: "\<forall>i\<in>set (currentPlayers s1). \<exists>q. get s1 i = Some q
                 \<and> get s2 i = Some (if role q \<noteq> Some Babu then q\<lparr>score := score q + g i\<rparr> else q)"
      and hist: "\<exists>c d. history s2 = history s1 @
                [\<lparr>round = currentRound s1, message = msg,
                  gains = map (\<lambda>i. (i, name (the (get s1 i)), g i)) (currentPlayers s1),
                  correct = (t = (if guessTarget s1 = Chor then c else d))\<rparr>]"
      by blast
    have "b = ?b"
      using same_holder [OF dealt_inj [OF de1], of b ?b] b bm rb cp1 by simp
    from eff b(1) obtain q where q: "get s1 b = Some q"
      "get s2 b = Some (if role q \<noteq> Some Babu then q\<lparr>score := score q + g b\<rparr> else q)"
      by blast
    have "role q = Some Babu" using b(2) q(1) by (simp add: roleOf_def)
    then have same: "scoreOf s2 b = scoreOf s1 b" using q by (simp add: scoreOf_def)
    have "(b, name (the (get s1 b)), 900) \<in> set (gains (last (history s2)))"
      using hist b(1) gb by force
    then show ?thesis using rr same \<open>b = ?b\<close> by auto
  qed
  show ?thesis using r bm rb sb others blocked res by blast
qed

lemma findTarget_member:
  assumes reg: "\<forall>i\<in>set (currentPlayers s). get s i \<noteq> None"
    and f: "findTarget data s = Some (Some t)"
  shows "t \<in> set (currentPlayers s)"
proof -
  have n: "t \<in> set (currentPlayers s)" if "byName d s = Some (Some t)" for d
    using that
    by (auto simp: byName_def findM_get [OF reg] find_Some_iff split: option.splits if_splits)
  show ?thesis using f n
    by (auto simp: findTarget_def split: option.splits if_splits)
qed

text \<open>
  The first round of Ann, Bob, Cy and Di: Ann becomes Babu with 900 points, and Bob's
  guess on Cy leaves them with her.
\<close>

theorem babu_granted_once_witness:
  "roster table \<and> is_shuffle [Babu, Police, Chor, Dakat]
   \<and> (\<exists>s1 b. startRound [Babu, Police, Chor, Dakat] table = Some s1
          \<and> b \<in> set (currentPlayers table) \<and> roleOf s1 b = Some Babu
          \<and> scoreOf s1 b = map_option (\<lambda>x. x + rolePoints Babu) (scoreOf table b)
          \<and> roleOf s1 ''b'' = Some Police
          \<and> (\<exists>s2. resolveRound ''b'' ''c'' s1 = Some s2 \<and> scoreOf s2 b = scoreOf s1 b
                \<and> (\<exists>n. (b, n, rolePoints Babu) \<in> set (gains (last (history s2))))))"
proof -
  have h1: "roster table" by (simp add: roster_def table_def get_def)
  have h2: "is_shuffle [Babu, Police, Chor, Dakat]" by (simp add: is_shuffle_def)
  have h3: "map_option (\<lambda>s. roleOf s ''b'') (startRound [Babu, Police, Chor, Dakat] table)
              = Some (Some Police)"
    by code_simp
  from babu_granted_once [OF h1 h2] obtain s1 b where
    r: "startRound [Babu, Police, Chor, Dakat] table = Some s1"
    and b: "b \<in> set (currentPlayers table)" "roleOf s1 b = Some Babu"
      "scoreOf s1 b = map_option (\<lambda>x. x + rolePoints Babu) (scoreOf table b)"
    and res: "\<forall>p t. roleOf s1 p = Some Police \<longrightarrow>
                 (\<exists>s2. resolveRound p t s1 = Some s2 \<and> scoreOf s2 b = scoreOf s1 b
                       \<and> (\<exists>n. (b, n, rolePoints Babu) \<in> set (gains (last (history s2)))))"
    by blast
  have pol: "roleOf s1 ''b'' = Some Police" using h3 r by simp
  with res have "\<exists>s2. resolveRound ''b'' ''c'' s1 = Some s2 \<and> scoreOf s2 b = scoreOf s1 b
                       \<and> (\<exists>n. (b, n, rolePoints Babu) \<in> set (gains (last (history s2))))"
    by blast
  then show ?thesis using h1 h2 r b pol by blast
qed

lemma get_modify_ix:
  "modify_ix i f s = Some s' \<Longrightarrow> get_ix s' j = (if j = i then map_option f (get_ix s i) else get_ix s j)"
  by (auto simp: modify_ix_def get_ix_def update_conv' split: option.splits)

lemma modify_ix_frame:
  "modify_ix i f s = Some s' \<Longrightarrow> s' = s\<lparr>players_ix := players_ix s'\<rparr>"
  by (auto simp: modify_ix_def split: option.splits)

lemma modify_ix_Some: "get_ix s i \<noteq> None \<Longrightarrow> \<exists>s'. modify_ix i f s = Some s'"
  by (auto simp: modify_ix_def split: option.splits)

lemma forEach_modify_ix:
  assumes "distinct (map k xs)" and "\<forall>x\<in>set xs. get_ix s (k x) \<noteq> None"
  shows "\<exists>s'. forEach xs (\<lambda>x. modify_ix (k x) (f x)) s = Some s'
           \<and> s' = s\<lparr>players_ix := players_ix s'\<rparr>
           \<and> (\<forall>x\<in>set xs. get_ix s' (k x) = map_option (f x) (get_ix s (k x)))
           \<and> (\<forall>j. j \<notin> k ` set xs \<longrightarrow> get_ix s' j = get_ix s j)"
  using assms
proof (induction xs arbitrary: s)
  case Nil
  then show ?case by simp
next
  case (Cons x xs)
  from Cons.prems obtain s1 where s1: "modify_ix (k x) (f x) s = Some s1"
    using modify_ix_Some by fastforce
  have g1: "\<And>j. get_ix s1 j = (if j = k x then map_option (f x) (get_ix s (k x)) else get_ix s j)"
    using get_modify_ix [OF s1] by simp
  have fr1: "s1 = s\<lparr>players_ix := players_ix s1\<rparr>" by (rule modify_ix_frame [OF s1])
  have d: "distinct (map k xs)" and nx: "k x \<notin> k ` set xs" using Cons.prems(1) by auto
  have reg: "\<forall>y\<in>set xs. get_ix s1 (k y) \<noteq> None"
    using Cons.prems(2) nx by (auto simp: g1)
  from Cons.IH [OF d reg] obtain s' where
    r: "forEach xs (\<lambda>x. modify_ix (k x) (f x)) s1 = Some s'"
    and fr: "s' = s1\<lparr>players_ix := players_ix s'\<rparr>"
    and upd: "\<forall>y\<in>set xs. get_ix s' (k y) = map_option (f y) (get_ix s1 (k y))"
    and oth: "\<forall>j. j \<notin> k ` set xs \<longrightarrow> get_ix s' j = get_ix s1 j"
    by blast
  have "forEach (x # xs) (\<lambda>x. modify_ix (k x) (f x)) s = Some s'" using s1 r by simp
  moreover have "s' = s\<lparr>players_ix := players_ix s'\<rparr>"
    by (subst fr, subst fr1) simp
  moreover have "\<forall>y\<in>set (x # xs). get_ix s' (k y) = map_option (f y) (get_ix s (k y))"
  proof
    fix y assume "y \<in> set (x # xs)"
    then consider "y = x" | "y \<in> set xs" by auto
    then show "get_ix s' (k y) = map_option (f y) (get_ix s (k y))"
    proof cases
      case 1
      then show ?thesis using oth nx g1 by simp
    next
      case 2
      then have "k y \<noteq> k x" using nx by (metis imageI)
      then show ?thesis using upd 2 g1 by simp
    qed
  qed
  moreover have "\<forall>j. j \<notin> k ` set (x # xs) \<longrightarrow> get_ix s' j = get_ix s j"
    using oth g1 by auto
  ultimately show ?case by blast
qed

lemma assignRoles_ix_effect:
  assumes dist: "distinct (currentPlayers_ix s)"
    and reg: "\<forall>i\<in>set (currentPlayers_ix s). get_ix s i \<noteq> None"
    and len: "length (currentPlayers_ix s) \<le> length shuffled"
  shows "\<exists>s'. assignRoles_ix shuffled s = Some s'
           \<and> s' = s\<lparr>players_ix := players_ix s'\<rparr>
           \<and> (\<forall>k<length (currentPlayers_ix s). \<exists>p. get_ix s (currentPlayers_ix s ! k) = Some p
                 \<and> get_ix s' (currentPlayers_ix s ! k)
                     = Some (p\<lparr>role_ix := Some (shuffled ! k),
                              score_ix := score_ix p + ROLE_POINTS (shuffled ! k)\<rparr>))
           \<and> (\<forall>j. j \<notin> set (currentPlayers_ix s) \<longrightarrow> get_ix s' j = get_ix s j)"
proof -
  let ?cps = "currentPlayers_ix s"
  let ?G = "\<lambda>x p. p\<lparr>role_ix := Some (shuffled ! fst x),
                     score_ix := score_ix p + ROLE_POINTS (shuffled ! fst x)\<rparr>"
  have d: "distinct (map snd (enumerate 0 ?cps))" using dist by simp
  have r: "\<forall>x\<in>set (enumerate 0 ?cps). get_ix s (snd x) \<noteq> None"
    using reg by (auto simp: in_set_enumerate_eq)
  from forEach_modify_ix [of snd "enumerate 0 ?cps" s ?G, OF d r] obtain s1 where
    run: "forEach (enumerate 0 ?cps) (\<lambda>x. modify_ix (snd x) (?G x)) s = Some s1"
    and fr: "s1 = s\<lparr>players_ix := players_ix s1\<rparr>"
    and upd: "\<forall>x\<in>set (enumerate 0 ?cps). get_ix s1 (snd x) = map_option (?G x) (get_ix s (snd x))"
    and oth: "\<forall>j. j \<notin> snd ` set (enumerate 0 ?cps) \<longrightarrow> get_ix s1 j = get_ix s j"
    by blast
  have same: "forEach (enumerate 0 ?cps)
                (\<lambda>(index, i) s'. case nth_opt shuffled index of
                     None \<Rightarrow> None
                   | Some r \<Rightarrow> modify_ix i (\<lambda>p. p\<lparr>role_ix := Some r,
                                                   score_ix := score_ix p + ROLE_POINTS r\<rparr>) s') s
              = forEach (enumerate 0 ?cps) (\<lambda>x. modify_ix (snd x) (?G x)) s"
  proof (rule forEach_cong)
    fix x t assume "x \<in> set (enumerate 0 ?cps)"
    then have "fst x < length shuffled" using len by (auto simp: in_set_enumerate_eq)
    then have "nth_opt shuffled (fst x) = Some (shuffled ! fst x)" by (rule nth_opt_nth)
    then show "(case x of (index, i) \<Rightarrow> \<lambda>s'. case nth_opt shuffled index of
                     None \<Rightarrow> None
                   | Some r \<Rightarrow> modify_ix i (\<lambda>p. p\<lparr>role_ix := Some r,
                                                   score_ix := score_ix p + ROLE_POINTS r\<rparr>) s') t
               = modify_ix (snd x) (?G x) t"
      by (simp add: case_prod_beta')
  qed
  have a: "assignRoles_ix shuffled s = Some s1"
    unfolding assignRoles_ix_def using same run by simp
  have c: "\<exists>p. get_ix s (?cps ! k) = Some p
             \<and> get_ix s1 (?cps ! k)
                 = Some (p\<lparr>role_ix := Some (shuffled ! k),
                          score_ix := score_ix p + ROLE_POINTS (shuffled ! k)\<rparr>)"
    if k: "k < length ?cps" for k
  proof -
    from k reg obtain p where p: "get_ix s (?cps ! k) = Some p" by fastforce
    have mem: "(k, ?cps ! k) \<in> set (enumerate 0 ?cps)" using k by (simp add: in_set_enumerate_eq)
    from upd mem have "get_ix s1 (?cps ! k) = map_option (?G (k, ?cps ! k)) (get_ix s (?cps ! k))"
      by fastforce
    then show ?thesis using p by simp
  qed
  have img: "snd ` set (enumerate 0 ?cps) = set ?cps"
    by (metis list.set_map map_snd_enumerate)
  have e: "get_ix s1 j = get_ix s j" if "j \<notin> set ?cps" for j
    using that oth by (simp add: img)
  show ?thesis using a fr c e by blast
qed

lemma assignRoles_ix_roles:
  assumes dist: "distinct (currentPlayers_ix s)"
    and reg: "\<forall>i\<in>set (currentPlayers_ix s). get_ix s i \<noteq> None"
    and len: "length (currentPlayers_ix s) = length shuffled"
    and a: "assignRoles_ix shuffled s = Some s'"
  shows "map (roleOf_ix s') (currentPlayers_ix s) = map Some shuffled"
proof (rule nth_equalityI)
  show "length (map (roleOf_ix s') (currentPlayers_ix s)) = length (map Some shuffled)"
    using len by simp
next
  fix k assume "k < length (map (roleOf_ix s') (currentPlayers_ix s))"
  then have k: "k < length (currentPlayers_ix s)" by simp
  from assignRoles_ix_effect [OF dist reg, of shuffled] len a k
  have "\<exists>p. get_ix s' (currentPlayers_ix s ! k)
              = Some (p\<lparr>role_ix := Some (shuffled ! k),
                       score_ix := score_ix p + ROLE_POINTS (shuffled ! k)\<rparr>)"
    by fastforce
  then show "map (roleOf_ix s') (currentPlayers_ix s) ! k = map Some shuffled ! k"
    using k len by (auto simp: roleOf_ix_def)
qed

text \<open>
  C7. For a roster of four distinct registered participants, and whatever rearrangement
  of the four roles the sort returns, \<^verbatim>\<open>assignRoles\<close> of either server succeeds and the
  map from participants to roles is a bijection onto the four roles.
\<close>

theorem assignRoles_bijection:
  assumes ro: "roster s" and ri: "roster_ix t"
    and sh: "is_shuffle shuffled" and shi: "is_shuffle shuffled_ix"
  shows "(\<exists>s'. assignRoles shuffled s = Some s' \<and> currentPlayers s' = currentPlayers s
             \<and> bij_betw (roleOf s') (set (currentPlayers s')) (Some ` UNIV))
       \<and> (\<exists>t'. assignRoles_ix shuffled_ix t = Some t' \<and> currentPlayers_ix t' = currentPlayers_ix t
             \<and> bij_betw (roleOf_ix t') (set (currentPlayers_ix t')) (Some ` UNIV))"
proof
  have dist: "distinct (currentPlayers s)" and reg: "\<forall>i\<in>set (currentPlayers s). get s i \<noteq> None"
    and len: "length (currentPlayers s) = length shuffled"
    using ro is_shuffle_length [OF sh] by (auto simp: roster_def)
  from assignRoles_effect [OF dist reg, of shuffled] len obtain s' where
    a: "assignRoles shuffled s = Some s'"
    and fr: "s' = s\<lparr>players := players s', awaitingShuffle := False\<rparr>"
    by auto
  have cp: "currentPlayers s' = currentPlayers s" by (subst fr) simp
  have "map (roleOf s') (currentPlayers s) = map Some shuffled"
    by (rule assignRoles_roles [OF dist reg len a])
  then have "bij_betw (roleOf s') (set (currentPlayers s)) (Some ` UNIV)"
    using sh unfolding is_shuffle_def by (rule bij_from_lists)
  then show "\<exists>s'. assignRoles shuffled s = Some s' \<and> currentPlayers s' = currentPlayers s
             \<and> bij_betw (roleOf s') (set (currentPlayers s')) (Some ` UNIV)"
    using a cp by auto
next
  have dist: "distinct (currentPlayers_ix t)"
    and reg: "\<forall>i\<in>set (currentPlayers_ix t). get_ix t i \<noteq> None"
    and len: "length (currentPlayers_ix t) = length shuffled_ix"
    using ri is_shuffle_length [OF shi] by (auto simp: roster_ix_def)
  from assignRoles_ix_effect [OF dist reg, of shuffled_ix] len obtain t' where
    a: "assignRoles_ix shuffled_ix t = Some t'"
    and fr: "t' = t\<lparr>players_ix := players_ix t'\<rparr>"
    by auto
  have cp: "currentPlayers_ix t' = currentPlayers_ix t" by (subst fr) simp
  have "map (roleOf_ix t') (currentPlayers_ix t) = map Some shuffled_ix"
    by (rule assignRoles_ix_roles [OF dist reg len a])
  then have "bij_betw (roleOf_ix t') (set (currentPlayers_ix t)) (Some ` UNIV)"
    using shi unfolding is_shuffle_def by (rule bij_from_lists)
  then show "\<exists>t'. assignRoles_ix shuffled_ix t = Some t' \<and> currentPlayers_ix t' = currentPlayers_ix t
             \<and> bij_betw (roleOf_ix t') (set (currentPlayers_ix t')) (Some ` UNIV)"
    using a cp by auto
qed

text \<open>The game of Ann, Bob, Cy and Di under two role orders.\<close>

theorem assignRoles_bijection_witness:
  "roster table \<and> roster_ix table_ix
   \<and> is_shuffle [Dakat, Babu, Police, Chor] \<and> is_shuffle [Chor, Police, Dakat, Babu]
   \<and> (\<exists>s'. assignRoles [Dakat, Babu, Police, Chor] table = Some s'
          \<and> currentPlayers s' = currentPlayers table
          \<and> bij_betw (roleOf s') (set (currentPlayers s')) (Some ` UNIV))
   \<and> (\<exists>t'. assignRoles_ix [Chor, Police, Dakat, Babu] table_ix = Some t'
          \<and> currentPlayers_ix t' = currentPlayers_ix table_ix
          \<and> bij_betw (roleOf_ix t') (set (currentPlayers_ix t')) (Some ` UNIV))"
proof -
  have h1: "roster table" by (simp add: roster_def table_def get_def)
  have h2: "roster_ix table_ix" by (simp add: roster_ix_def table_ix_def get_ix_def)
  have h3: "is_shuffle [Dakat, Babu, Police, Chor]" by (simp add: is_shuffle_def)
  have h4: "is_shuffle [Chor, Police, Dakat, Babu]" by (simp add: is_shuffle_def)
  show ?thesis using assignRoles_bijection [OF h1 h2 h3 h4] h1 h2 h3 h4 by blast
qed


lemma get_ix_frame [simp]:
  "get_ix (s\<lparr>timers := ts\<rparr>) = get_ix s"
  "get_ix (s\<lparr>gameInProgress := b\<rparr>) = get_ix s"
  "get_ix (s\<lparr>currentRound_ix := n\<rparr>) = get_ix s"
  "get_ix (s\<lparr>outbox_ix := ob\<rparr>) = get_ix s"
  "get_ix (emits_ix es s) = get_ix s"
  by (simp_all add: get_ix_def emits_ix_def fun_eq_iff)

lemma get_ix_resetGame: "get_ix (resetGame s) i = map_option (\<lambda>p. p\<lparr>role_ix := None\<rparr>) (get_ix s i)"
  by (simp add: resetGame_def get_ix_def map_of_map)

lemma outbox_ix_resetGame: "outbox_ix (resetGame s) = outbox_ix s @ [ToAll_ix GameReset_ix]"
  by (simp add: resetGame_def emits_ix_def)

lemma mapM_get_ix:
  "\<forall>i\<in>set xs. get_ix s i \<noteq> None
   \<Longrightarrow> mapM (\<lambda>i. map_option (h i) (get_ix s i)) xs = Some (map (\<lambda>i. h i (the (get_ix s i))) xs)"
  by (induction xs) auto

lemma filterM_get_ix:
  "\<forall>i\<in>set xs. get_ix s i \<noteq> None
   \<Longrightarrow> filterM (\<lambda>i. map_option (h i) (get_ix s i)) xs
         = Some (filter (\<lambda>i. h i (the (get_ix s i))) xs)"
  by (induction xs) auto

lemma resultMessages_ix_append:
  "resultMessages_ix (xs @ ys) = resultMessages_ix xs @ resultMessages_ix ys"
  by (induction xs rule: resultMessages_ix.induct) auto

lemma resultMessages_ix_results:
  "resultMessages_ix (map (\<lambda>i. To_ix i (RoundResult_ix m ok sb)) xs) = map (\<lambda>i. (i, m)) xs"
  by (induction xs) auto

lemma resultMessages_ix_gameOver:
  "resultMessages_ix (map (\<lambda>i. To_ix i (GameOver_ix w sb)) xs) = []"
  by (induction xs) auto

lemma announce_effect:
  assumes reg: "\<forall>i\<in>set (currentPlayers_ix s). get_ix s i \<noteq> None"
  shows "\<exists>s'. announce ok msg s = Some s'
           \<and> (\<forall>i. scoreOf_ix s' i = scoreOf_ix s i)
           \<and> results_ix s' = results_ix s @ map (\<lambda>i. (i, msg)) (currentPlayers_ix s)"
proof -
  have sub: "\<forall>i\<in>set (filter P (currentPlayers_ix s)). get_ix s i \<noteq> None" for P
    using reg by auto
  have sc: "map_option score_ix (map_option (\<lambda>p. p\<lparr>role_ix := None\<rparr>) x) = map_option score_ix x"
    for x :: "player_ix option"
    by (cases x) auto
  show ?thesis
    by (auto simp: announce_def mapM_get_ix [OF reg] mapM_get_ix [OF sub] filterM_get_ix [OF reg]
        Let_def emits_ix_def scoreOf_ix_def results_ix_def get_ix_resetGame sc
        resultMessages_ix_append resultMessages_ix_results resultMessages_ix_gameOver
        outbox_ix_resetGame)
qed

text \<open>
  C4, amended. In \<^verbatim>\<open>server/index.js\<close>, when the participant named by the Police is not
  the Chor, the Police's 500 role points are taken from the Police and given to the
  named participant (a Police who names themself keeps them), every other score is
  unchanged, and the message sent to each participant names the guessed participant and
  that participant's role.
\<close>

theorem wrong_guess_pays_the_guessed:
  assumes rg: "registered_ix s"
    and g: "get_ix s guessedId = Some guessedPlayer"
    and p: "get_ix s policeId = Some policePlayer"
    and wrong: "role_ix guessedPlayer \<noteq> Some Chor"
  shows "\<exists>s'. handleGuess policeId guessedId s = Some s'
           \<and> (\<forall>i. scoreOf_ix s' i
                     = map_option (\<lambda>x. x - (if i = policeId then ROLE_POINTS Police else 0)
                                          + (if i = guessedId then ROLE_POINTS Police else 0))
                         (scoreOf_ix s i))
           \<and> results_ix s'
               = results_ix s @
                 map (\<lambda>i. (i, show_name (name_ix policePlayer) @ '' guessed incorrectly; ''
                               @ show_name (name_ix guessedPlayer) @ '' was the ''
                               @ show_role (role_ix guessedPlayer) @ ''.''))
                   (currentPlayers_ix s)"
proof -
  let ?msg = "show_name (name_ix policePlayer) @ '' guessed incorrectly; ''
              @ show_name (name_ix guessedPlayer) @ '' was the ''
              @ show_role (role_ix guessedPlayer) @ ''.''"
  have reg: "\<forall>i\<in>set (currentPlayers_ix s). get_ix s i \<noteq> None"
    using rg by (simp add: registered_ix_def)
  from p obtain sa where sa: "modify_ix policeId (\<lambda>q. q\<lparr>score_ix := score_ix q - 500\<rparr>) s = Some sa"
    using modify_ix_Some [of s policeId] by fastforce
  have ga: "get_ix sa j = (if j = policeId
                           then map_option (\<lambda>q. q\<lparr>score_ix := score_ix q - 500\<rparr>) (get_ix s policeId)
                           else get_ix s j)" for j
    using get_modify_ix [OF sa] by simp
  have fa: "sa = s\<lparr>players_ix := players_ix sa\<rparr>" by (rule modify_ix_frame [OF sa])
  have "get_ix sa guessedId \<noteq> None" using g p by (simp add: ga)
  then obtain sb where sb: "modify_ix guessedId (\<lambda>q. q\<lparr>score_ix := score_ix q + 500\<rparr>) sa = Some sb"
    using modify_ix_Some by fastforce
  have gb: "get_ix sb j = (if j = guessedId
                           then map_option (\<lambda>q. q\<lparr>score_ix := score_ix q + 500\<rparr>) (get_ix sa guessedId)
                           else get_ix sa j)" for j
    using get_modify_ix [OF sb] by simp
  have fb: "sb = sa\<lparr>players_ix := players_ix sb\<rparr>" by (rule modify_ix_frame [OF sb])
  have cp: "currentPlayers_ix sb = currentPlayers_ix s" "outbox_ix sb = outbox_ix s"
    by (subst fb, subst fa, simp)+
  have regb: "\<forall>i\<in>set (currentPlayers_ix sb). get_ix sb i \<noteq> None"
    using reg g p by (auto simp: cp ga gb)
  from announce_effect [OF regb, of False ?msg] obtain s' where
    an: "announce False ?msg sb = Some s'"
    and sc: "\<forall>i. scoreOf_ix s' i = scoreOf_ix sb i"
    and rs: "results_ix s' = results_ix sb @ map (\<lambda>i. (i, ?msg)) (currentPlayers_ix sb)"
    by blast
  have hg: "handleGuess policeId guessedId s = Some s'"
    using g p wrong sa sb an by (simp add: handleGuess_def)
  have scb: "scoreOf_ix sb i
               = map_option (\<lambda>x. x - (if i = policeId then ROLE_POINTS Police else 0)
                                    + (if i = guessedId then ROLE_POINTS Police else 0))
                   (scoreOf_ix s i)" for i
    by (insert g p, cases "get_ix s i") (auto simp: scoreOf_ix_def ga gb)
  have "results_ix sb = results_ix s" by (simp add: results_ix_def cp)
  then show ?thesis using hg sc scb rs cp by simp
qed

text \<open>Round 1 of \<^verbatim>\<open>server/index.js\<close>: Bob, the Police, names Ann, the Babu.\<close>

theorem wrong_guess_pays_the_guessed_witness:
  "registered_ix midRound_ix
   \<and> get_ix midRound_ix ''a'' = Some \<lparr>name_ix = Some ''Ann'', score_ix = 1000, role_ix = Some Babu\<rparr>
   \<and> get_ix midRound_ix ''b'' = Some \<lparr>name_ix = Some ''Bob'', score_ix = 500, role_ix = Some Police\<rparr>
   \<and> Some Babu \<noteq> Some Chor
   \<and> (\<exists>s'. handleGuess ''b'' ''a'' midRound_ix = Some s'
          \<and> scoreOf_ix s' ''a'' = Some 1500 \<and> scoreOf_ix s' ''b'' = Some 0
          \<and> scoreOf_ix s' ''c'' = Some 300 \<and> scoreOf_ix s' ''d'' = Some 0
          \<and> results_ix s' = [(''a'', ''Bob guessed incorrectly; Ann was the Babu.''),
                             (''b'', ''Bob guessed incorrectly; Ann was the Babu.''),
                             (''c'', ''Bob guessed incorrectly; Ann was the Babu.''),
                             (''d'', ''Bob guessed incorrectly; Ann was the Babu.'')])"
proof -
  have h1: "registered_ix midRound_ix"
    by (simp add: registered_ix_def midRound_ix_def get_ix_def)
  have h2: "get_ix midRound_ix ''a''
              = Some \<lparr>name_ix = Some ''Ann'', score_ix = 1000, role_ix = Some Babu\<rparr>"
    by (simp add: midRound_ix_def get_ix_def)
  have h3: "get_ix midRound_ix ''b''
              = Some \<lparr>name_ix = Some ''Bob'', score_ix = 500, role_ix = Some Police\<rparr>"
    by (simp add: midRound_ix_def get_ix_def)
  have h4: "role_ix \<lparr>name_ix = Some ''Ann'', score_ix = 1000, role_ix = Some Babu\<rparr> \<noteq> Some Chor"
    by simp
  have v: "scoreOf_ix midRound_ix ''a'' = Some 1000" "scoreOf_ix midRound_ix ''b'' = Some 500"
    "scoreOf_ix midRound_ix ''c'' = Some 300" "scoreOf_ix midRound_ix ''d'' = Some 0"
    "results_ix midRound_ix = []" "currentPlayers_ix midRound_ix = [''a'', ''b'', ''c'', ''d'']"
    by (simp_all add: midRound_ix_def scoreOf_ix_def get_ix_def results_ix_def)
  from wrong_guess_pays_the_guessed [OF h1 h2 h3 h4] obtain s' where
    "handleGuess ''b'' ''a'' midRound_ix = Some s'"
    "\<forall>i. scoreOf_ix s' i
            = map_option (\<lambda>x. x - (if i = ''b'' then ROLE_POINTS Police else 0)
                                 + (if i = ''a'' then ROLE_POINTS Police else 0))
                (scoreOf_ix midRound_ix i)"
    "results_ix s'
       = results_ix midRound_ix @
         map (\<lambda>i. (i, show_name (name_ix \<lparr>name_ix = Some ''Bob'', score_ix = 500, role_ix = Some Police\<rparr>)
                       @ '' guessed incorrectly; ''
                       @ show_name (name_ix \<lparr>name_ix = Some ''Ann'', score_ix = 1000, role_ix = Some Babu\<rparr>)
                       @ '' was the ''
                       @ show_role (role_ix \<lparr>name_ix = Some ''Ann'', score_ix = 1000, role_ix = Some Babu\<rparr>)
                       @ ''.''))
           (currentPlayers_ix midRound_ix)"
    by blast
  then have "handleGuess ''b'' ''a'' midRound_ix = Some s'
          \<and> scoreOf_ix s' ''a'' = Some 1500 \<and> scoreOf_ix s' ''b'' = Some 0
          \<and> scoreOf_ix s' ''c'' = Some 300 \<and> scoreOf_ix s' ''d'' = Some 0
          \<and> results_ix s' = [(''a'', ''Bob guessed incorrectly; Ann was the Babu.''),
                             (''b'', ''Bob guessed incorrectly; Ann was the Babu.''),
                             (''c'', ''Bob guessed incorrectly; Ann was the Babu.''),
                             (''d'', ''Bob guessed incorrectly; Ann was the Babu.'')]"
    using v by (simp add: show_name_def show_role_def)
  then show ?thesis using h1 h2 h3 by blast
qed


lemma get_frame2 [simp]:
  "get (s\<lparr>waiting := w\<rparr>) = get s"
  "get (s\<lparr>currentPlayers := c\<rparr>) = get s"
  "get (s\<lparr>gameStarted := b\<rparr>) = get s"
  by (simp_all add: get_def fun_eq_iff)

lemma get_delete: "get (s\<lparr>players := AList.delete i (players s)\<rparr>) j = (if j = i then None else get s j)"
  by (simp add: get_def delete_conv')

lemma on_disconnect_effect:
  assumes ro: "roster s" and rg: "registered s"
    and i: "i \<in> set (currentPlayers s)" and nw: "i \<notin> set (waiting s)"
  shows "\<exists>s'. on_disconnect i s = Some s' \<and> \<not> gameStarted s'
           \<and> (\<forall>j\<in>set (currentPlayers s). j \<noteq> i \<longrightarrow>
                  j \<in> set (waiting s') \<and> scoreOf s' j = Some 0 \<and> roleOf s' j = None
                  \<and> get s' j \<noteq> None)
           \<and> (\<exists>m ns. outbox s' = outbox s @ [ToAll (PlayerLeft m), ToAll (UpdatePlayers ns)])"
proof -
  let ?cps = "currentPlayers s"
  let ?cp = "filter (\<lambda>j. j \<noteq> i) ?cps"
  let ?s1 = "s\<lparr>currentPlayers := ?cp, history := [], currentRound := 0,
               awaitingShuffle := False, gameStarted := False\<rparr>"
  have dist: "distinct ?cps" and reg: "\<forall>j\<in>set ?cps. get s j \<noteq> None"
    using ro by (auto simp: roster_def)
  have regw: "\<forall>j\<in>set (waiting s). get s j \<noteq> None" using rg by (auto simp: registered_def)
  have d: "distinct (map (\<lambda>x. x) ?cp)" using dist by simp
  have r1: "\<forall>x\<in>set ?cp. get ?s1 x \<noteq> None" using reg by simp
  from forEach_modify [of "\<lambda>x. x" ?cp ?s1 "\<lambda>_. resetPlayer", OF d r1] obtain s2 where
    run: "forEach ?cp (\<lambda>j. modify j resetPlayer) ?s1 = Some s2"
    and fr: "s2 = ?s1\<lparr>players := players s2\<rparr>"
    and upd: "\<forall>x\<in>set ?cp. get s2 x = map_option resetPlayer (get s x)"
    and oth: "\<forall>j. j \<notin> set ?cp \<longrightarrow> get s2 j = get s j"
    by auto
  have fields: "currentPlayers s2 = ?cp" "waiting s2 = waiting s" "outbox s2 = outbox s"
    "gameStarted s2 = False"
    by (subst fr, simp)+
  from reg i obtain p where p: "get s i = Some p" by auto
  have gi: "get s2 i = Some p" using oth p by simp
  have regall: "\<forall>j\<in>set (waiting s @ ?cp). get s2 j \<noteq> None"
    using upd oth reg regw by (metis (no_types, lifting) option.map_disc_iff filter_is_subset subsetD set_append Un_iff)
  have "\<exists>s'. on_disconnect i s = Some s' \<and> \<not> gameStarted s'
          \<and> waiting s' = waiting s @ ?cp
          \<and> (\<forall>j. get s' j = (if j = i then None else get s2 j))
          \<and> (\<exists>m ns. outbox s' = outbox s @ [ToAll (PlayerLeft m), ToAll (UpdatePlayers ns)])"
    using i nw run
    by (simp add: on_disconnect_def Let_def fields gi waitingNames_def mapM_get [OF regall]
        emits_def, simp add: get_def delete_conv')
  then obtain s' where r: "on_disconnect i s = Some s'" and gs: "\<not> gameStarted s'"
    and w: "waiting s' = waiting s @ ?cp"
    and g: "\<forall>j. get s' j = (if j = i then None else get s2 j)"
    and ob: "\<exists>m ns. outbox s' = outbox s @ [ToAll (PlayerLeft m), ToAll (UpdatePlayers ns)]"
    by blast
  have surv: "\<forall>j\<in>set ?cps. j \<noteq> i \<longrightarrow>
                  j \<in> set (waiting s') \<and> scoreOf s' j = Some 0 \<and> roleOf s' j = None
                  \<and> get s' j \<noteq> None"
  proof (intro ballI impI)
    fix j assume j: "j \<in> set ?cps" "j \<noteq> i"
    then have m: "j \<in> set ?cp" by simp
    from reg j obtain q where q: "get s j = Some q" by auto
    have "get s' j = Some (resetPlayer q)" using g upd m j q by simp
    then show "j \<in> set (waiting s') \<and> scoreOf s' j = Some 0 \<and> roleOf s' j = None
                  \<and> get s' j \<noteq> None"
      using m w by (simp add: scoreOf_def roleOf_def resetPlayer_def)
  qed
  show ?thesis using r gs surv ob by blast
qed

lemma get_ix_delete:
  "map_of (AList.delete i al) j = (if j = i then None else map_of al j)"
  by (simp add: delete_conv')

lemma on_disconnect_ix_effect:
  assumes rg: "registered_ix t" and i: "i \<in> set (currentPlayers_ix t)"
  shows "\<exists>t'. on_disconnect_ix i t = Some t' \<and> \<not> gameInProgress t'
           \<and> (\<forall>j\<in>set (currentPlayers_ix t). j \<noteq> i \<longrightarrow>
                  j \<in> set (waitingQueue t') \<and> scoreOf_ix t' j = scoreOf_ix t j
                  \<and> roleOf_ix t' j = None \<and> get_ix t' j \<noteq> None)
           \<and> outbox_ix t' = outbox_ix t
                @ map (\<lambda>j. To_ix j (PlayerLeft_ix ''A player left the game. The game has been reset.''))
                    (filter (\<lambda>j. j \<noteq> i) (currentPlayers_ix t))
                @ [ToAll_ix GameReset_ix]"
proof -
  have reg: "\<forall>j\<in>set (currentPlayers_ix t). get_ix t j \<noteq> None"
    using rg by (simp add: registered_ix_def)
  let ?t' = "resetGame
               (emits_ix (map (\<lambda>j. To_ix j (PlayerLeft_ix
                                  ''A player left the game. The game has been reset.''))
                            (filter (\<lambda>j. j \<noteq> i) (currentPlayers_ix t)))
                  (t\<lparr>players_ix := AList.delete i (players_ix t),
                     waitingQueue := filter (\<lambda>j. j \<noteq> i) (waitingQueue t),
                     currentPlayers_ix := filter (\<lambda>j. j \<noteq> i) (currentPlayers_ix t)\<rparr>))"
  have r: "on_disconnect_ix i t = Some ?t'"
    using i by (simp add: on_disconnect_ix_def Let_def)
  have g: "get_ix ?t' j = (if j = i then None else map_option (\<lambda>p. p\<lparr>role_ix := None\<rparr>) (get_ix t j))"
    for j
    by (simp add: get_ix_resetGame) (simp add: get_ix_def emits_ix_def delete_conv')
  have "set (waitingQueue ?t') = dom (map_of (AList.delete i (players_ix t)))"
    by (simp add: resetGame_def emits_ix_def dom_map_of_conv_image_fst)
  then have wq: "set (waitingQueue ?t') = {j. j \<noteq> i \<and> get_ix t j \<noteq> None}"
    by (auto simp: delete_conv' get_ix_def)
  have surv: "\<forall>j\<in>set (currentPlayers_ix t). j \<noteq> i \<longrightarrow>
                  j \<in> set (waitingQueue ?t') \<and> scoreOf_ix ?t' j = scoreOf_ix t j
                  \<and> roleOf_ix ?t' j = None \<and> get_ix ?t' j \<noteq> None"
  proof (intro ballI impI)
    fix j assume j: "j \<in> set (currentPlayers_ix t)" "j \<noteq> i"
    from reg j obtain q where q: "get_ix t j = Some q" by auto
    have "get_ix ?t' j = Some (q\<lparr>role_ix := None\<rparr>)" using g j q by simp
    moreover have "j \<in> set (waitingQueue ?t')" using wq j q by simp
    ultimately show "j \<in> set (waitingQueue ?t') \<and> scoreOf_ix ?t' j = scoreOf_ix t j
                  \<and> roleOf_ix ?t' j = None \<and> get_ix ?t' j \<noteq> None"
      using q by (simp add: scoreOf_ix_def roleOf_ix_def)
  qed
  have ob: "outbox_ix ?t' = outbox_ix t
                @ map (\<lambda>j. To_ix j (PlayerLeft_ix ''A player left the game. The game has been reset.''))
                    (filter (\<lambda>j. j \<noteq> i) (currentPlayers_ix t))
                @ [ToAll_ix GameReset_ix]"
    by (simp add: outbox_ix_resetGame emits_ix_def)
  have gp: "\<not> gameInProgress ?t'" by (simp add: resetGame_def emits_ix_def)
  show ?thesis using r gp surv ob by blast
qed


text \<open>
  C6, amended. When one of the four participants of a game disconnects, the game is
  reset: the three survivors are in the waiting pool with their roles cleared, a
  player-left notice goes out (to everyone in \<^verbatim>\<open>server.js\<close>, to each survivor in
  \<^verbatim>\<open>server/index.js\<close>), the handler emits no round result, and in the state it leaves
  every guess is ignored. \<^verbatim>\<open>server.js\<close> sets the survivors' scores to 0;
  \<^verbatim>\<open>server/index.js\<close> keeps their scores.
\<close>

theorem disconnect_resets_game:
  assumes ro: "roster s" and rg: "registered s"
    and i: "i \<in> set (currentPlayers s)" and nw: "i \<notin> set (waiting s)"
    and rgi: "registered_ix t" and k: "k \<in> set (currentPlayers_ix t)"
  shows "(\<exists>s'. on_disconnect i s = Some s' \<and> \<not> gameStarted s'
             \<and> (\<forall>j\<in>set (currentPlayers s). j \<noteq> i \<longrightarrow>
                    j \<in> set (waiting s') \<and> scoreOf s' j = Some 0 \<and> roleOf s' j = None
                    \<and> get s' j \<noteq> None)
             \<and> (\<exists>m ns. outbox s' = outbox s @ [ToAll (PlayerLeft m), ToAll (UpdatePlayers ns)])
             \<and> (\<forall>j d. on_guess j d s' = Some s'))
       \<and> (\<exists>t'. on_disconnect_ix k t = Some t' \<and> \<not> gameInProgress t'
             \<and> (\<forall>j\<in>set (currentPlayers_ix t). j \<noteq> k \<longrightarrow>
                    j \<in> set (waitingQueue t') \<and> scoreOf_ix t' j = scoreOf_ix t j
                    \<and> roleOf_ix t' j = None \<and> get_ix t' j \<noteq> None)
             \<and> outbox_ix t' = outbox_ix t
                  @ map (\<lambda>j. To_ix j (PlayerLeft_ix
                                ''A player left the game. The game has been reset.''))
                      (filter (\<lambda>j. j \<noteq> k) (currentPlayers_ix t))
                  @ [ToAll_ix GameReset_ix]
             \<and> (\<forall>j g. on_guess_ix j g t' = Some t'))"
proof
  from on_disconnect_effect [OF ro rg i nw] obtain s' where
    a: "on_disconnect i s = Some s'" "\<not> gameStarted s'"
      "\<forall>j\<in>set (currentPlayers s). j \<noteq> i \<longrightarrow>
          j \<in> set (waiting s') \<and> scoreOf s' j = Some 0 \<and> roleOf s' j = None \<and> get s' j \<noteq> None"
      "\<exists>m ns. outbox s' = outbox s @ [ToAll (PlayerLeft m), ToAll (UpdatePlayers ns)]"
    by blast
  have "\<forall>j d. on_guess j d s' = Some s'" using a(2) by (simp add: on_guess_def)
  then show "\<exists>s'. on_disconnect i s = Some s' \<and> \<not> gameStarted s'
             \<and> (\<forall>j\<in>set (currentPlayers s). j \<noteq> i \<longrightarrow>
                    j \<in> set (waiting s') \<and> scoreOf s' j = Some 0 \<and> roleOf s' j = None
                    \<and> get s' j \<noteq> None)
             \<and> (\<exists>m ns. outbox s' = outbox s @ [ToAll (PlayerLeft m), ToAll (UpdatePlayers ns)])
             \<and> (\<forall>j d. on_guess j d s' = Some s')"
    using a by blast
next
  from on_disconnect_ix_effect [OF rgi k] obtain t' where
    b: "on_disconnect_ix k t = Some t'" "\<not> gameInProgress t'"
      "\<forall>j\<in>set (currentPlayers_ix t). j \<noteq> k \<longrightarrow>
                    j \<in> set (waitingQueue t') \<and> scoreOf_ix t' j = scoreOf_ix t j
                    \<and> roleOf_ix t' j = None \<and> get_ix t' j \<noteq> None"
      "outbox_ix t' = outbox_ix t
                  @ map (\<lambda>j. To_ix j (PlayerLeft_ix
                                ''A player left the game. The game has been reset.''))
                      (filter (\<lambda>j. j \<noteq> k) (currentPlayers_ix t))
                  @ [ToAll_ix GameReset_ix]"
    by blast
  have "\<forall>j g. on_guess_ix j g t' = Some t'" using b(2) by (simp add: on_guess_ix_def)
  then show "\<exists>t'. on_disconnect_ix k t = Some t' \<and> \<not> gameInProgress t'
             \<and> (\<forall>j\<in>set (currentPlayers_ix t). j \<noteq> k \<longrightarrow>
                    j \<in> set (waitingQueue t') \<and> scoreOf_ix t' j = scoreOf_ix t j
                    \<and> roleOf_ix t' j = None \<and> get_ix t' j \<noteq> None)
             \<and> outbox_ix t' = outbox_ix t
                  @ map (\<lambda>j. To_ix j (PlayerLeft_ix
                                ''A player left the game. The game has been reset.''))
                      (filter (\<lambda>j. j \<noteq> k) (currentPlayers_ix t))
                  @ [ToAll_ix GameReset_ix]
             \<and> (\<forall>j g. on_guess_ix j g t' = Some t')"
    using b by blast
qed

text \<open>
  Di leaves during round 1: in \<^verbatim>\<open>server.js\<close> Ann waits with 0 points, in
  \<^verbatim>\<open>server/index.js\<close> with her 1000.
\<close>

theorem disconnect_resets_game_witness:
  "roster midRound \<and> registered midRound
   \<and> ''d'' \<in> set (currentPlayers midRound) \<and> ''d'' \<notin> set (waiting midRound)
   \<and> registered_ix midRound_ix \<and> ''d'' \<in> set (currentPlayers_ix midRound_ix)
   \<and> scoreOf midRound ''a'' = Some 900 \<and> scoreOf_ix midRound_ix ''a'' = Some 1000
   \<and> (\<exists>s'. on_disconnect ''d'' midRound = Some s' \<and> \<not> gameStarted s'
          \<and> ''a'' \<in> set (waiting s') \<and> scoreOf s' ''a'' = Some 0 \<and> roleOf s' ''a'' = None
          \<and> (\<exists>m ns. outbox s' = outbox midRound @ [ToAll (PlayerLeft m), ToAll (UpdatePlayers ns)])
          \<and> on_guess ''b'' (Some (GuessData (Some ''c'') None)) s' = Some s')
   \<and> (\<exists>t'. on_disconnect_ix ''d'' midRound_ix = Some t' \<and> \<not> gameInProgress t'
          \<and> ''a'' \<in> set (waitingQueue t') \<and> scoreOf_ix t' ''a'' = Some 1000
          \<and> roleOf_ix t' ''a'' = None
          \<and> outbox_ix t' =
               [To_ix ''a'' (PlayerLeft_ix ''A player left the game. The game has been reset.''),
                To_ix ''b'' (PlayerLeft_ix ''A player left the game. The game has been reset.''),
                To_ix ''c'' (PlayerLeft_ix ''A player left the game. The game has been reset.''),
                ToAll_ix GameReset_ix]
          \<and> on_guess_ix ''b'' (Some ''c'') t' = Some t')"
proof -
  have h1: "roster midRound" by (simp add: roster_def midRound_def get_def)
  have h2: "registered midRound" by (simp add: registered_def midRound_def get_def)
  have h3: "''d'' \<in> set (currentPlayers midRound)" by (simp add: midRound_def)
  have h4: "''d'' \<notin> set (waiting midRound)" by (simp add: midRound_def)
  have h5: "registered_ix midRound_ix" by (simp add: registered_ix_def midRound_ix_def get_ix_def)
  have h6: "''d'' \<in> set (currentPlayers_ix midRound_ix)" by (simp add: midRound_ix_def)
  have v: "scoreOf midRound ''a'' = Some 900" "scoreOf_ix midRound_ix ''a'' = Some 1000"
    "''a'' \<in> set (currentPlayers midRound)" "''a'' \<in> set (currentPlayers_ix midRound_ix)"
    "''a'' \<noteq> ''d''"
    by (simp_all add: midRound_def midRound_ix_def scoreOf_def scoreOf_ix_def get_def get_ix_def)
  have o: "outbox_ix midRound_ix
             @ map (\<lambda>j. To_ix j (PlayerLeft_ix ''A player left the game. The game has been reset.''))
                 (filter (\<lambda>j. j \<noteq> ''d'') (currentPlayers_ix midRound_ix))
             @ [ToAll_ix GameReset_ix]
           = [To_ix ''a'' (PlayerLeft_ix ''A player left the game. The game has been reset.''),
              To_ix ''b'' (PlayerLeft_ix ''A player left the game. The game has been reset.''),
              To_ix ''c'' (PlayerLeft_ix ''A player left the game. The game has been reset.''),
              ToAll_ix GameReset_ix]"
    by (simp add: midRound_ix_def)
  note th = disconnect_resets_game [OF h1 h2 h3 h4 h5 h6]
  from th [THEN conjunct1] obtain s' where
    c: "on_disconnect ''d'' midRound = Some s' \<and> \<not> gameStarted s'
        \<and> (\<forall>j\<in>set (currentPlayers midRound). j \<noteq> ''d'' \<longrightarrow>
              j \<in> set (waiting s') \<and> scoreOf s' j = Some 0 \<and> roleOf s' j = None
              \<and> get s' j \<noteq> None)
        \<and> (\<exists>m ns. outbox s' = outbox midRound @ [ToAll (PlayerLeft m), ToAll (UpdatePlayers ns)])
        \<and> (\<forall>j d. on_guess j d s' = Some s')"
    by (rule exE)
  note a = c [THEN conjunct1] c [THEN conjunct2, THEN conjunct1]
    c [THEN conjunct2, THEN conjunct2, THEN conjunct1]
    c [THEN conjunct2, THEN conjunct2, THEN conjunct2, THEN conjunct1]
    c [THEN conjunct2, THEN conjunct2, THEN conjunct2, THEN conjunct2]
  from th [THEN conjunct2] obtain t' where
    e: "on_disconnect_ix ''d'' midRound_ix = Some t' \<and> \<not> gameInProgress t'
        \<and> (\<forall>j\<in>set (currentPlayers_ix midRound_ix). j \<noteq> ''d'' \<longrightarrow>
              j \<in> set (waitingQueue t') \<and> scoreOf_ix t' j = scoreOf_ix midRound_ix j
              \<and> roleOf_ix t' j = None \<and> get_ix t' j \<noteq> None)
        \<and> outbox_ix t' = outbox_ix midRound_ix
             @ map (\<lambda>j. To_ix j (PlayerLeft_ix ''A player left the game. The game has been reset.''))
                 (filter (\<lambda>j. j \<noteq> ''d'') (currentPlayers_ix midRound_ix))
             @ [ToAll_ix GameReset_ix]
        \<and> (\<forall>j g. on_guess_ix j g t' = Some t')"
    by (rule exE)
  note b = e [THEN conjunct1] e [THEN conjunct2, THEN conjunct1]
    e [THEN conjunct2, THEN conjunct2, THEN conjunct1]
    e [THEN conjunct2, THEN conjunct2, THEN conjunct2, THEN conjunct1]
    e [THEN conjunct2, THEN conjunct2, THEN conjunct2, THEN conjunct2]
  from a(3) v(3,5) have sa:
    "''a'' \<in> set (waiting s') \<and> scoreOf s' ''a'' = Some 0 \<and> roleOf s' ''a'' = None"
    by (metis (full_types))
  from b(3) v(4,5) have
    "''a'' \<in> set (waitingQueue t') \<and> scoreOf_ix t' ''a'' = scoreOf_ix midRound_ix ''a''
       \<and> roleOf_ix t' ''a'' = None"
    by (metis (full_types))
  then have sb: "''a'' \<in> set (waitingQueue t') \<and> scoreOf_ix t' ''a'' = Some 1000
            \<and> roleOf_ix t' ''a'' = None"
    using v(2) by simp
  have ob: "outbox_ix t' =
               [To_ix ''a'' (PlayerLeft_ix ''A player left the game. The game has been reset.''),
                To_ix ''b'' (PlayerLeft_ix ''A player left the game. The game has been reset.''),
                To_ix ''c'' (PlayerLeft_ix ''A player left the game. The game has been reset.''),
                ToAll_ix GameReset_ix]"
    using b(4) o by simp
  have A: "\<exists>s'. on_disconnect ''d'' midRound = Some s' \<and> \<not> gameStarted s'
          \<and> ''a'' \<in> set (waiting s') \<and> scoreOf s' ''a'' = Some 0 \<and> roleOf s' ''a'' = None
          \<and> (\<exists>m ns. outbox s' = outbox midRound @ [ToAll (PlayerLeft m), ToAll (UpdatePlayers ns)])
          \<and> on_guess ''b'' (Some (GuessData (Some ''c'') None)) s' = Some s'"
    using a(1,2,4,5) sa by (intro exI [of _ s']) simp
  have B: "\<exists>t'. on_disconnect_ix ''d'' midRound_ix = Some t' \<and> \<not> gameInProgress t'
          \<and> ''a'' \<in> set (waitingQueue t') \<and> scoreOf_ix t' ''a'' = Some 1000
          \<and> roleOf_ix t' ''a'' = None
          \<and> outbox_ix t' =
               [To_ix ''a'' (PlayerLeft_ix ''A player left the game. The game has been reset.''),
                To_ix ''b'' (PlayerLeft_ix ''A player left the game. The game has been reset.''),
                To_ix ''c'' (PlayerLeft_ix ''A player left the game. The game has been reset.''),
                ToAll_ix GameReset_ix]
          \<and> on_guess_ix ''b'' (Some ''c'') t' = Some t'"
    using b(1,2,5) sb ob by (intro exI [of _ t']) simp
  show ?thesis
    using h1 h2 h3 h4 h5 h6 v(1,2) A B by (intro conjI)
qed



text \<open>
  What does hold of C2 and C8. In \<^verbatim>\<open>server.js\<close> a guess is ignored unless a round
  awaits it and the sender is the Police, and a resolved round awaits no guess; in
  \<^verbatim>\<open>server/index.js\<close> a guess from a sender who is not the Police is ignored.
\<close>

lemma on_guess_ignored:
  "\<not> gameStarted s \<or> \<not> awaitingShuffle s \<or> (get s j \<noteq> None \<and> roleOf s j \<noteq> Some Police)
   \<Longrightarrow> on_guess j d s = Some s"
  by (auto simp: on_guess_def roleOf_def)

lemma guess_after_resolveRound_ignored:
  assumes "roster s" and "dealt s" and "roleOf s p = Some Police"
  shows "\<exists>s'. resolveRound p t s = Some s' \<and> (\<forall>j d. on_guess j d s' = Some s')"
proof -
  from resolveRound_effect [OF assms, of t] obtain s' where
    "resolveRound p t s = Some s'" "awaitingShuffle s' = False"
    by blast
  then show ?thesis by (auto simp: on_guess_def)
qed

lemma on_guess_ix_ignored:
  "roleOf_ix s j \<noteq> Some Police \<Longrightarrow> on_guess_ix j g s = Some s"
  by (auto simp: on_guess_ix_def roleOf_ix_def split: option.splits)

lemma find_first:
  "t \<in> set xs \<Longrightarrow> P t \<Longrightarrow> \<forall>j\<in>set (takeWhile (\<lambda>j. j \<noteq> t) xs). \<not> P j \<Longrightarrow> find P xs = Some t"
  by (induction xs) auto

lemma named_has_first:
  "j \<in> set (currentPlayers s) \<Longrightarrow> map_option name (get s j) = Some n
   \<Longrightarrow> \<exists>t\<in>set (currentPlayers s). firstNamed s n t"
proof -
  have "\<exists>t\<in>set xs. P t \<and> (\<forall>k\<in>set (takeWhile (\<lambda>k. k \<noteq> t) xs). \<not> P k)"
    if "j \<in> set xs" "P j" for xs :: "sid list" and P
    using that
  proof (induction xs)
    case Nil
    then show ?case by simp
  next
    case (Cons x xs)
    show ?case
    proof (cases "P x")
      case True
      then show ?thesis by (intro bexI [of _ x]) auto
    next
      case False
      with Cons.prems have "j \<in> set xs" by auto
      from Cons.IH [OF this Cons.prems(2)] obtain t where
        t: "t \<in> set xs" "P t" "\<forall>k\<in>set (takeWhile (\<lambda>k. k \<noteq> t) xs). \<not> P k"
        by blast
      then show ?thesis using False by (intro bexI [of _ t]) auto
    qed
  qed
  from this [of "currentPlayers s" "\<lambda>k. map_option name (get s k) = Some n"]
  show "j \<in> set (currentPlayers s) \<Longrightarrow> map_option name (get s j) = Some n
        \<Longrightarrow> \<exists>t\<in>set (currentPlayers s). firstNamed s n t"
    by (auto simp: firstNamed_def)
qed

text \<open>
  C10. In \<^verbatim>\<open>server.js\<close>, in a round that awaits its guess, let \<open>t\<close> be any current
  participant, the Police or the Babu included. A guess by the Police whose \<^verbatim>\<open>id\<close> is
  \<open>t\<close>, or whose \<^verbatim>\<open>id\<close> is of nobody in the game and whose \<^verbatim>\<open>name\<close> is that of \<open>t\<close>
  (\<open>t\<close> being the first of that name), passes the guard and resolves the round on \<open>t\<close>.
  The guess is correct exactly when \<open>t\<close> holds the round's target role; when it is not,
  the Chor still receives 400 points, the Dakat 600, and nobody else anything. By
  \<open>named_has_first\<close> every name of a current participant has such a \<open>t\<close>.
\<close>

theorem guess_on_any_participant:
  assumes ro: "roster s" and de: "dealt s" and gs: "gameStarted s" and aw: "awaitingShuffle s"
    and pol: "roleOf s p = Some Police"
    and tm: "t \<in> set (currentPlayers s)" and t: "t \<noteq> []"
  shows "\<exists>s'. resolveRound p t s = Some s'
           \<and> (\<forall>nm. on_guess p (Some (GuessData (Some t) nm)) s = Some s')
           \<and> (\<forall>i n. idMisses i s \<and> n \<noteq> [] \<and> firstNamed s n t
                  \<longrightarrow> on_guess p (Some (GuessData i (Some n))) s = Some s')
           \<and> \<not> awaitingShuffle s'
           \<and> length (history s') = length (history s) + 1
           \<and> correct (last (history s')) = (roleOf s t = Some (guessTarget s))
           \<and> (roleOf s t \<noteq> Some (guessTarget s) \<longrightarrow>
                (\<forall>i\<in>set (currentPlayers s).
                   scoreOf s' i
                     = map_option (\<lambda>x. x + (if roleOf s i = Some Chor then rolePoints Chor
                                              else if roleOf s i = Some Dakat then rolePoints Dakat
                                              else 0)) (scoreOf s i)))"
proof -
  let ?cps = "currentPlayers s"
  have reg: "\<forall>i\<in>set ?cps. get s i \<noteq> None" using ro by (simp add: roster_def)
  have inj: "inj_on (roleOf s) (set ?cps)" by (rule dealt_inj [OF de])
  from pol obtain pp where pp: "get s p = Some pp" "role pp = Some Police"
    by (auto simp: roleOf_def split: option.splits)
  have byId: "findTarget (Some (GuessData (Some t) nm)) s = Some (Some t)" for nm
    using tm t by (simp add: findTarget_def)
  have byNm: "findTarget (Some (GuessData i (Some n))) s = Some (Some t)"
    if h: "idMisses i s" "n \<noteq> []" "firstNamed s n t" for i n
  proof -
    let ?P = "\<lambda>j. name (the (get s j)) = n"
    have same: "?P j \<longleftrightarrow> map_option name (get s j) = Some n" if "j \<in> set ?cps" for j
      using reg that by auto
    have "?P t" using h(3) tm same by (simp add: firstNamed_def)
    moreover have "\<forall>j\<in>set (takeWhile (\<lambda>j. j \<noteq> t) ?cps). \<not> ?P j"
    proof
      fix j assume j: "j \<in> set (takeWhile (\<lambda>j. j \<noteq> t) ?cps)"
      then have "j \<in> set ?cps" by (rule set_takeWhileD [THEN conjunct1])
      then show "\<not> ?P j" using h(3) j same by (simp add: firstNamed_def)
    qed
    ultimately have "find ?P ?cps = Some t" using tm by (intro find_first)
    then have "byName (GuessData i (Some n)) s = Some (Some t)"
      using h(2) by (simp add: byName_def findM_get [OF reg])
    then show ?thesis using h(1)
      by (auto simp: findTarget_def idMisses_def split: option.splits)
  qed
  have og: "on_guess p data s = resolveRound p t s" if "findTarget data s = Some (Some t)" for data
    using gs aw pp that t by (simp add: on_guess_def)
  from resolveRound_effect [OF ro de pol, of t] obtain s' b c d g msg where
    b: "b \<in> set ?cps" "roleOf s b = Some Babu" and c: "c \<in> set ?cps" "roleOf s c = Some Chor"
    and d: "d \<in> set ?cps" "roleOf s d = Some Dakat"
    and rr: "resolveRound p t s = Some s'"
    and gw: "t \<noteq> (if guessTarget s = Chor then c else d)
              \<longrightarrow> g c = 400 \<and> g d = 600 \<and> (\<forall>i. i \<noteq> b \<and> i \<noteq> c \<and> i \<noteq> d \<longrightarrow> g i = 0)"
    and eff: "\<forall>i\<in>set ?cps. \<exists>q. get s i = Some q
                 \<and> get s' i = Some (if role q \<noteq> Some Babu then q\<lparr>score := score q + g i\<rparr> else q)"
    and aw': "awaitingShuffle s' = False"
    and hist: "history s' = history s @
                [\<lparr>round = currentRound s, message = msg,
                  gains = map (\<lambda>i. (i, name (the (get s i)), g i)) ?cps,
                  correct = (t = (if guessTarget s = Chor then c else d))\<rparr>]"
    by blast
  have tc: "roleOf s t = Some Chor \<longleftrightarrow> t = c"
    using same_holder [OF inj tm c(1)] c(2) by auto
  have td: "roleOf s t = Some Dakat \<longleftrightarrow> t = d"
    using same_holder [OF inj tm d(1)] d(2) by auto
  have ok: "(t = (if guessTarget s = Chor then c else d)) \<longleftrightarrow> roleOf s t = Some (guessTarget s)"
    using tc td by (auto simp: guessTarget_def)
  have sc: "\<forall>i\<in>set ?cps.
              scoreOf s' i = map_option (\<lambda>x. x + (if roleOf s i = Some Chor then rolePoints Chor
                                                  else if roleOf s i = Some Dakat then rolePoints Dakat
                                                  else 0)) (scoreOf s i)"
    if wrong: "roleOf s t \<noteq> Some (guessTarget s)"
  proof
    fix i assume i: "i \<in> set ?cps"
    from wrong ok gw have g: "g c = 400" "g d = 600" "\<forall>i. i \<noteq> b \<and> i \<noteq> c \<and> i \<noteq> d \<longrightarrow> g i = 0"
      by auto
    from eff i obtain q where q: "get s i = Some q"
      "get s' i = Some (if role q \<noteq> Some Babu then q\<lparr>score := score q + g i\<rparr> else q)"
      by blast
    have rq: "roleOf s i = role q" using q(1) by (simp add: roleOf_def)
    consider "i = b" | "i = c" | "i = d" | "i \<noteq> b" "i \<noteq> c" "i \<noteq> d" by blast
    then show "scoreOf s' i = map_option (\<lambda>x. x + (if roleOf s i = Some Chor then rolePoints Chor
                                                  else if roleOf s i = Some Dakat then rolePoints Dakat
                                                  else 0)) (scoreOf s i)"
    proof cases
      case 1
      then have "role q = Some Babu" "roleOf s i = Some Babu" using rq b by auto
      then show ?thesis using q by (simp add: scoreOf_def)
    next
      case 2
      then have "role q = Some Chor" "roleOf s i = Some Chor" using rq c by auto
      then show ?thesis using q g 2 by (simp add: scoreOf_def)
    next
      case 3
      then have "role q = Some Dakat" "roleOf s i = Some Dakat" using rq d by auto
      then show ?thesis using q g 3 by (simp add: scoreOf_def)
    next
      case 4
      then have "roleOf s i \<noteq> Some Chor" "roleOf s i \<noteq> Some Dakat"
        using same_holder [OF inj i c(1)] same_holder [OF inj i d(1)] c(2) d(2) by auto
      moreover have "g i = 0" using g 4 by simp
      ultimately show ?thesis using q by (auto simp: scoreOf_def)
    qed
  qed
  have A: "\<forall>nm. on_guess p (Some (GuessData (Some t) nm)) s = Some s'"
    using og [OF byId] rr by simp
  have B: "\<forall>i n. idMisses i s \<and> n \<noteq> [] \<and> firstNamed s n t
                  \<longrightarrow> on_guess p (Some (GuessData i (Some n))) s = Some s'"
    using og [OF byNm] rr by simp
  have C: "length (history s') = length (history s) + 1"
    "correct (last (history s')) = (roleOf s t = Some (guessTarget s))"
    using hist ok by simp_all
  show ?thesis
    using rr A B aw' C sc by (intro exI [of _ s']) simp
qed


text \<open>
  Round 1 (target: the Chor, Cy). Bob, the Police, names himself or Ann, the Babu, by
  id or by name: each guess is handled and resolves the round as incorrect, Cy gets 400
  and Di 600. He names Cy: correct.
\<close>

theorem guess_on_any_participant_witness:
  "roster midRound \<and> dealt midRound \<and> gameStarted midRound \<and> awaitingShuffle midRound
   \<and> roleOf midRound ''b'' = Some Police \<and> roleOf midRound ''a'' = Some Babu
   \<and> guessTarget midRound = Chor
   \<and> idMisses None midRound \<and> idMisses (Some ''zz'') midRound
   \<and> firstNamed midRound ''Bob'' ''b'' \<and> firstNamed midRound ''Ann'' ''a''
   \<and> (\<exists>s'. on_guess ''b'' (Some (GuessData (Some ''b'') None)) midRound = Some s'
          \<and> on_guess ''b'' (Some (GuessData None (Some ''Bob''))) midRound = Some s'
          \<and> \<not> awaitingShuffle s' \<and> \<not> correct (last (history s'))
          \<and> scoreOf s' ''c'' = Some 400 \<and> scoreOf s' ''d'' = Some 600)
   \<and> (\<exists>s'. on_guess ''b'' (Some (GuessData (Some ''a'') (Some ''Cy''))) midRound = Some s'
          \<and> on_guess ''b'' (Some (GuessData (Some ''zz'') (Some ''Ann''))) midRound = Some s'
          \<and> \<not> awaitingShuffle s' \<and> \<not> correct (last (history s'))
          \<and> scoreOf s' ''c'' = Some 400 \<and> scoreOf s' ''d'' = Some 600)
   \<and> (\<exists>s'. on_guess ''b'' (Some (GuessData (Some ''c'') None)) midRound = Some s'
          \<and> \<not> awaitingShuffle s' \<and> correct (last (history s')))"
proof -
  have h1: "roster midRound" by (simp add: roster_def midRound_def get_def)
  have h2: "dealt midRound" by (simp add: dealt_def midRound_def roleOf_def get_def)
  have h3: "gameStarted midRound" and h4: "awaitingShuffle midRound"
    by (simp_all add: midRound_def)
  have h5: "roleOf midRound ''b'' = Some Police" by (simp add: midRound_def roleOf_def get_def)
  have m: "''a'' \<in> set (currentPlayers midRound)" "''b'' \<in> set (currentPlayers midRound)"
    "''c'' \<in> set (currentPlayers midRound)" "''d'' \<in> set (currentPlayers midRound)"
    by (simp_all add: midRound_def)
  have ne: "''a'' \<noteq> []" "''b'' \<noteq> []" "''c'' \<noteq> []" by simp_all
  have i1: "idMisses None midRound" and i2: "idMisses (Some ''zz'') midRound"
    by (simp_all add: idMisses_def midRound_def)
  have n1: "firstNamed midRound ''Bob'' ''b''" and n2: "firstNamed midRound ''Ann'' ''a''"
    by (simp_all add: firstNamed_def midRound_def get_def)
  have v: "roleOf midRound ''a'' = Some Babu" "guessTarget midRound = Chor"
    "roleOf midRound ''c'' = Some Chor" "roleOf midRound ''d'' = Some Dakat"
    "scoreOf midRound ''c'' = Some 0" "scoreOf midRound ''d'' = Some 0"
    by (simp_all add: midRound_def roleOf_def scoreOf_def get_def guessTarget_def)
  have B: "\<exists>s'. on_guess ''b'' (Some (GuessData (Some ''b'') None)) midRound = Some s'
          \<and> on_guess ''b'' (Some (GuessData None (Some ''Bob''))) midRound = Some s'
          \<and> \<not> awaitingShuffle s' \<and> \<not> correct (last (history s'))
          \<and> scoreOf s' ''c'' = Some 400 \<and> scoreOf s' ''d'' = Some 600"
  proof -
    from guess_on_any_participant [OF h1 h2 h3 h4 h5 m(2) ne(2)] obtain s' where
      a: "\<forall>nm. on_guess ''b'' (Some (GuessData (Some ''b'') nm)) midRound = Some s'"
      and b: "\<forall>i n. idMisses i midRound \<and> n \<noteq> [] \<and> firstNamed midRound n ''b''
                  \<longrightarrow> on_guess ''b'' (Some (GuessData i (Some n))) midRound = Some s'"
      and c: "\<not> awaitingShuffle s'"
      and e: "correct (last (history s')) = (roleOf midRound ''b'' = Some (guessTarget midRound))"
      and f: "roleOf midRound ''b'' \<noteq> Some (guessTarget midRound) \<longrightarrow>
                (\<forall>i\<in>set (currentPlayers midRound).
                   scoreOf s' i
                     = map_option (\<lambda>x. x + (if roleOf midRound i = Some Chor then rolePoints Chor
                                              else if roleOf midRound i = Some Dakat then rolePoints Dakat
                                              else 0)) (scoreOf midRound i))"
      by (elim exE conjE) (rule that; assumption)
    have a1: "on_guess ''b'' (Some (GuessData (Some ''b'') None)) midRound = Some s'"
      using a by (rule spec)
    have "idMisses None midRound \<and> ''Bob'' \<noteq> [] \<and> firstNamed midRound ''Bob'' ''b''"
      using i1 n1 by simp
    with b have b1: "on_guess ''b'' (Some (GuessData None (Some ''Bob''))) midRound = Some s'"
      by (elim allE [of _ "None"] allE [of _ "''Bob''"] impE) assumption+
    have wrong: "roleOf midRound ''b'' \<noteq> Some (guessTarget midRound)" using h5 v by simp
    have nc: "\<not> correct (last (history s'))" using e wrong by simp
    from f wrong have ball: "\<forall>i\<in>set (currentPlayers midRound).
                   scoreOf s' i
                     = map_option (\<lambda>x. x + (if roleOf midRound i = Some Chor then rolePoints Chor
                                              else if roleOf midRound i = Some Dakat then rolePoints Dakat
                                              else 0)) (scoreOf midRound i)"
      by (rule mp)
    have sc: "scoreOf s' ''c'' = Some 400" using bspec [OF ball m(3)] v by simp
    have sd: "scoreOf s' ''d'' = Some 600" using bspec [OF ball m(4)] v by simp
    show ?thesis using a1 b1 c nc sc sd by (intro exI [of _ s']) simp
  qed
  have A: "\<exists>s'. on_guess ''b'' (Some (GuessData (Some ''a'') (Some ''Cy''))) midRound = Some s'
          \<and> on_guess ''b'' (Some (GuessData (Some ''zz'') (Some ''Ann''))) midRound = Some s'
          \<and> \<not> awaitingShuffle s' \<and> \<not> correct (last (history s'))
          \<and> scoreOf s' ''c'' = Some 400 \<and> scoreOf s' ''d'' = Some 600"
  proof -
    from guess_on_any_participant [OF h1 h2 h3 h4 h5 m(1) ne(1)] obtain s' where
      a: "\<forall>nm. on_guess ''b'' (Some (GuessData (Some ''a'') nm)) midRound = Some s'"
      and b: "\<forall>i n. idMisses i midRound \<and> n \<noteq> [] \<and> firstNamed midRound n ''a''
                  \<longrightarrow> on_guess ''b'' (Some (GuessData i (Some n))) midRound = Some s'"
      and c: "\<not> awaitingShuffle s'"
      and e: "correct (last (history s')) = (roleOf midRound ''a'' = Some (guessTarget midRound))"
      and f: "roleOf midRound ''a'' \<noteq> Some (guessTarget midRound) \<longrightarrow>
                (\<forall>i\<in>set (currentPlayers midRound).
                   scoreOf s' i
                     = map_option (\<lambda>x. x + (if roleOf midRound i = Some Chor then rolePoints Chor
                                              else if roleOf midRound i = Some Dakat then rolePoints Dakat
                                              else 0)) (scoreOf midRound i))"
      by (elim exE conjE) (rule that; assumption)
    have a1: "on_guess ''b'' (Some (GuessData (Some ''a'') (Some ''Cy''))) midRound = Some s'"
      using a by (rule spec)
    have "idMisses (Some ''zz'') midRound \<and> ''Ann'' \<noteq> [] \<and> firstNamed midRound ''Ann'' ''a''"
      using i2 n2 by simp
    with b have b1: "on_guess ''b'' (Some (GuessData (Some ''zz'') (Some ''Ann''))) midRound = Some s'"
      by (elim allE [of _ "(Some ''zz'')"] allE [of _ "''Ann''"] impE) assumption+
    have wrong: "roleOf midRound ''a'' \<noteq> Some (guessTarget midRound)" using h5 v by simp
    have nc: "\<not> correct (last (history s'))" using e wrong by simp
    from f wrong have ball: "\<forall>i\<in>set (currentPlayers midRound).
                   scoreOf s' i
                     = map_option (\<lambda>x. x + (if roleOf midRound i = Some Chor then rolePoints Chor
                                              else if roleOf midRound i = Some Dakat then rolePoints Dakat
                                              else 0)) (scoreOf midRound i)"
      by (rule mp)
    have sc: "scoreOf s' ''c'' = Some 400" using bspec [OF ball m(3)] v by simp
    have sd: "scoreOf s' ''d'' = Some 600" using bspec [OF ball m(4)] v by simp
    show ?thesis using a1 b1 c nc sc sd by (intro exI [of _ s']) simp
  qed
  have C: "\<exists>s'. on_guess ''b'' (Some (GuessData (Some ''c'') None)) midRound = Some s'
          \<and> \<not> awaitingShuffle s' \<and> correct (last (history s'))"
  proof -
    from guess_on_any_participant [OF h1 h2 h3 h4 h5 m(3) ne(3)] obtain s' where
      a: "\<forall>nm. on_guess ''b'' (Some (GuessData (Some ''c'') nm)) midRound = Some s'"
      and b: "\<forall>i n. idMisses i midRound \<and> n \<noteq> [] \<and> firstNamed midRound n ''c''
                  \<longrightarrow> on_guess ''b'' (Some (GuessData i (Some n))) midRound = Some s'"
      and c: "\<not> awaitingShuffle s'"
      and e: "correct (last (history s')) = (roleOf midRound ''c'' = Some (guessTarget midRound))"
      and f: "roleOf midRound ''c'' \<noteq> Some (guessTarget midRound) \<longrightarrow>
                (\<forall>i\<in>set (currentPlayers midRound).
                   scoreOf s' i
                     = map_option (\<lambda>x. x + (if roleOf midRound i = Some Chor then rolePoints Chor
                                              else if roleOf midRound i = Some Dakat then rolePoints Dakat
                                              else 0)) (scoreOf midRound i))"
      by (elim exE conjE) (rule that; assumption)
    have a1: "on_guess ''b'' (Some (GuessData (Some ''c'') None)) midRound = Some s'"
      using a by (rule spec)
    have ok: "correct (last (history s'))" using e v by simp
    show ?thesis using a1 c ok by (intro exI [of _ s']) simp
  qed
  show ?thesis
    using h1 h2 h3 h4 h5 v(1,2) i1 i2 n1 n2 B A C by (intro conjI)
qed


text \<open>
  The comparator of \<^verbatim>\<open>server.js\<close> is negative for exactly half of the values of
  \<^verbatim>\<open>Math.random()\<close>: each comparator call answers ``negative'' with probability 1/2, and
  the 64 lists of answers of six calls are equally likely.
\<close>

lemma half_negative: "card {d. d < 2 ^ Suc n \<and> comparator (Suc n) d < 0} = 2 ^ n"
proof -
  have "{d. d < 2 ^ Suc n \<and> comparator (Suc n) d < 0} = {..<2 ^ n}"
    by (auto simp: comparator_def)
  then show ?thesis by simp
qed

text \<open>
  C1. The assignment of the roles is uniform: each role falls on each participant in one
  case of four. In \<^verbatim>\<open>server.js\<close> it does not. The sort never makes more than six
  comparator calls on the four roles, and of the 64 equally likely lists of their answers
  the numbers that deal Babu, Police, Chor and Dakat to Ann are 23, 9, 12 and 20, to Bob
  11, 25, 16 and 12, to Cy 10, 24, 18 and 12, and to Di 20, 6, 18 and 20, where a uniform
  assignment has 16 everywhere. (Each row adds up to 64: the sort comes to its end on
  every list.)
\<close>

theorem sort_shuffle_biased:
  "length sixCalls = 64
   \<and> map dealtTo [''a'', ''b'', ''c'', ''d'']
       = [[23, 9, 12, 20], [11, 25, 16, 12], [10, 24, 18, 12], [20, 6, 18, 20]]"
  by code_simp

end
